theory Spec2Isabelle
  imports Complex_Main
begin

section \<open>JavaScript values used by the Stays code\<close>

text \<open>
  A JavaScript number as the code meets it: \<^verbatim>\<open>parseInt\<close> yields an integer or
  \<^verbatim>\<open>NaN\<close>. \<^verbatim>\<open>NaN\<close> and \<^verbatim>\<open>0\<close> are falsy.
\<close>

datatype jsnum = NaN | Num int

fun truthy_num :: "jsnum option \<Rightarrow> bool" where
  "truthy_num None = False"
| "truthy_num (Some NaN) = False"
| "truthy_num (Some (Num n)) = (n \<noteq> 0)"

text \<open>A string-valued expression that may be \<^verbatim>\<open>undefined\<close>; the empty string is falsy.\<close>

fun truthy_str :: "string option \<Rightarrow> bool" where
  "truthy_str None = False"
| "truthy_str (Some s) = (s \<noteq> [])"

text \<open>\<^verbatim>\<open>a || b\<close> on such values: the left operand when truthy, else the right one as it is.\<close>

definition js_or :: "string option \<Rightarrow> string option \<Rightarrow> string option" where
  "js_or a b = (if truthy_str a then a else b)"

text \<open>
  A value of type \<^verbatim>\<open>any\<close> as the datastore holds it in a JSON column and takes it for a
  column of a row: \<^verbatim>\<open>null\<close>, a boolean, a number or a string.
\<close>

datatype jsvalue = JNull | JBool bool | JNum int | JStr string

section \<open>StaysRoom and its parts\<close>

text \<open>
  Modelled from the spec: the module \<^verbatim>\<open>StaysTypes\<close>, which the sources import for the
  types \<^verbatim>\<open>StaysRoom\<close>, \<^verbatim>\<open>StaysBed\<close>, \<^verbatim>\<open>StaysBedType\<close>, \<^verbatim>\<open>StaysAmenity\<close>, \<^verbatim>\<open>StaysPhoto\<close> and
  \<^verbatim>\<open>StaysRoomRate\<close>, is not among them. The records carry the fields of the spec's
  NormalizedRoom and RateRecord, under the names \<^verbatim>\<open>RoomFeedParser.ts\<close> writes and
  \<^verbatim>\<open>calculateQualityScore\<close> reads. The parser works on a \<^verbatim>\<open>Partial<StaysRoom>\<close> and the
  scorer tests each collection for presence, so every field but the name is optional.
\<close>

datatype staysBedType =
  Single | Double | Full | Twin | Queen | King | Bunk | Sofabed | Murphy

record staysBed =
  bed_type :: staysBedType
  bed_count :: jsnum

record staysPhoto =
  url :: string

datatype amenityType =
  Wifi | Pool | Parking | Gym | Spa | Restaurant | Room_service | Laundry | Concierge
| Pets_allowed | Business_centre | Lounge | Childcare_service | Cash_machine
| Front_desk_24_hour | Accessibility_mobility | Accessibility_hearing | Adult_only

record staysAmenity =
  amenity_type :: amenityType
  amenity_description :: string

datatype boardType = Room_only | Breakfast | All_inclusive

record staysRoomRate =
  rate_id :: string
  rate_code :: "string option"
  total_amount :: string
  total_currency :: string
  base_amount :: "string option"
  base_currency :: string
  tax_amount :: "string option"
  tax_currency :: string
  fee_amount :: "string option"
  fee_currency :: string
  due_at_accommodation_amount :: "string option"
  due_at_accommodation_currency :: string
  payment_type :: string
  board_type :: boardType
  available_payment_methods :: "string list"
  conditions :: "string list"
  cancellation_timeline :: "string list"
  loyalty_programme_required :: bool
  supported_loyalty_programme :: "string option"
  rate_source :: string
  expires_at :: int
  rate_description :: "string option"
  quantity_available :: "int option"

record roomAttributes =
  attr_class :: "string option"
  attr_view :: "string option"

record staysRoom =
  name :: string
  max_occupancy :: "jsnum option"
  beds :: "staysBed list option"
  photos :: "staysPhoto list option"
  amenities :: "staysAmenity list option"
  attributes :: "roomAttributes option"
  rates :: "staysRoomRate list option"

text \<open>\<^verbatim>\<open>xs && xs.length > 0\<close> on an optional array.\<close>

fun nonempty :: "'a list option \<Rightarrow> bool" where
  "nonempty None = False"
| "nonempty (Some xs) = (xs \<noteq> [])"

section \<open>EnterpriseHotelRoomMappingService: the quality score\<close>

text \<open>\<^verbatim>\<open>room.attributes && (room.attributes.class || room.attributes.view)\<close>\<close>

fun has_class_or_view :: "roomAttributes option \<Rightarrow> bool" where
  "has_class_or_view None = False"
| "has_class_or_view (Some a) = (truthy_str (attr_class a) \<or> truthy_str (attr_view a))"

definition calculateQualityScore :: "staysRoom \<Rightarrow> int" where
  "calculateQualityScore room =
     (let score = 0;
          score = (if name room \<noteq> [] then score + 10 else score);
          score = (if truthy_num (max_occupancy room) then score + 10 else score);
          score = (if nonempty (beds room) then score + 20 else score);
          score = (if nonempty (photos room) then score + 20 else score);
          score = (if nonempty (amenities room) then score + 20 else score);
          score = (if has_class_or_view (attributes room) then score + 10 else score);
          score = (if nonempty (rates room) then score + 10 else score)
      in min score 100)"

section \<open>RoomFeedParser: the normalizer tables\<close>

text \<open>
  Strings are lists of bytes, the UTF-8 form of the text. The built-in functions of the
  JavaScript runtime that the parser calls, \<^verbatim>\<open>toLowerCase\<close>, \<^verbatim>\<open>toUpperCase\<close>, \<^verbatim>\<open>trim\<close> and
  \<^verbatim>\<open>parseInt(s, 10)\<close>, are no part of the sources and follow the Unicode tables of the
  runtime, so the parser takes them as a parameter: what is proved of it holds
  whatever these functions compute.
\<close>

record jsBuiltins =
  toLowerCase :: "string \<Rightarrow> string"
  toUpperCase :: "string \<Rightarrow> string"
  trim :: "string \<Rightarrow> string"
  parseInt :: "string \<Rightarrow> jsnum"

text \<open>
  The built-in functions on ASCII text, where they are: the case mappings of the
  letters, \<^verbatim>\<open>trim\<close> on the ASCII white space, and \<^verbatim>\<open>parseInt(s, 10)\<close> as leading white
  space, an optional sign, then the longest run of decimal digits, with \<^verbatim>\<open>NaN\<close> when there
  is no digit. They serve to run the parser on the feeds of the tests.
\<close>

definition toLowerChar :: "char \<Rightarrow> char" where
  "toLowerChar c =
     (let n = (of_char c :: nat) in if 65 \<le> n \<and> n \<le> 90 then char_of (n + 32) else c)"

definition toUpperChar :: "char \<Rightarrow> char" where
  "toUpperChar c =
     (let n = (of_char c :: nat) in if 97 \<le> n \<and> n \<le> 122 then char_of (n - 32) else c)"

definition ascii_toLowerCase :: "string \<Rightarrow> string" where
  "ascii_toLowerCase s = map toLowerChar s"

definition ascii_toUpperCase :: "string \<Rightarrow> string" where
  "ascii_toUpperCase s = map toUpperChar s"

text \<open>\<^verbatim>\<open>s.includes(sub)\<close>\<close>

fun str_includes :: "string \<Rightarrow> string \<Rightarrow> bool" where
  "str_includes [] sub = (sub = [])"
| "str_includes (c # cs) sub = (take (length sub) (c # cs) = sub \<or> str_includes cs sub)"

definition is_space :: "char \<Rightarrow> bool" where
  "is_space c = (let n = (of_char c :: nat) in n = 32 \<or> (9 \<le> n \<and> n \<le> 13))"

definition ascii_trim :: "string \<Rightarrow> string" where
  "ascii_trim s = rev (dropWhile is_space (rev (dropWhile is_space s)))"

definition is_digit :: "char \<Rightarrow> bool" where
  "is_digit c = (let n = (of_char c :: nat) in 48 \<le> n \<and> n \<le> 57)"

definition digits_value :: "string \<Rightarrow> int" where
  "digits_value ds = foldl (\<lambda>a c. 10 * a + (int (of_char c) - 48)) 0 ds"

definition ascii_parseInt :: "string \<Rightarrow> jsnum" where
  "ascii_parseInt s =
     (let s = dropWhile is_space s;
          neg = (case s of [] \<Rightarrow> False | c # _ \<Rightarrow> c = CHR ''-'');
          s = (case s of [] \<Rightarrow> [] | c # r \<Rightarrow> if c = CHR ''-'' \<or> c = CHR ''+'' then r else s);
          ds = takeWhile is_digit s
      in if ds = [] then NaN
         else Num (if neg then - digits_value ds else digits_value ds))"

definition asciiBuiltins :: jsBuiltins where
  "asciiBuiltins =
     \<lparr>toLowerCase = ascii_toLowerCase, toUpperCase = ascii_toUpperCase, trim = ascii_trim,
      parseInt = ascii_parseInt\<rparr>"

definition normalizeBedType :: "jsBuiltins \<Rightarrow> string \<Rightarrow> staysBedType" where
  "normalizeBedType js rawType =
     (let lower = toLowerCase js rawType in
      if str_includes lower ''king'' then King
      else if str_includes lower ''queen'' then Queen
      else if str_includes lower ''double'' then Double
      else if str_includes lower ''twin'' then Twin
      else if str_includes lower ''sofa'' then Sofabed
      else if str_includes lower ''murphy'' then Murphy
      else if str_includes lower ''bunk'' then Bunk
      else if str_includes lower ''full'' then Full
      else Single)"

definition AMENITY_MAPPING :: "(string \<times> amenityType) list" where
  "AMENITY_MAPPING =
     [(''WIFI'', Wifi), (''INTERNET'', Wifi), (''POOL'', Pool), (''SWIMMING'', Pool),
      (''PARKING'', Parking), (''VALET'', Parking), (''GYM'', Gym), (''FITNESS'', Gym),
      (''WORKOUT'', Gym), (''SPA'', Spa), (''SAUNA'', Spa), (''RESTAURANT'', Restaurant),
      (''DINING'', Restaurant), (''ROOMSERVICE'', Room_service), (''LAUNDRY'', Laundry),
      (''DRYCLEANING'', Laundry), (''CONCIERGE'', Concierge), (''PETS'', Pets_allowed),
      (''DOG'', Pets_allowed), (''CAT'', Pets_allowed), (''BUSINESS'', Business_centre),
      (''LOUNGE'', Lounge), (''BAR'', Lounge), (''CHILDCARE'', Childcare_service),
      (''BABY'', Childcare_service), (''ATM'', Cash_machine), (''CASH'', Cash_machine),
      (''FRONTDESK'', Front_desk_24_hour), (''RECEPTION'', Front_desk_24_hour),
      (''ACCESSIB'', Accessibility_mobility), (''HANDICAP'', Accessibility_mobility),
      (''HEARING'', Accessibility_hearing), (''ADULT'', Adult_only)]"

definition is_upper_alnum :: "char \<Rightarrow> bool" where
  "is_upper_alnum c =
     (let n = (of_char c :: nat) in (65 \<le> n \<and> n \<le> 90) \<or> (48 \<le> n \<and> n \<le> 57))"

definition mapAmenity :: "jsBuiltins \<Rightarrow> string \<Rightarrow> amenityType" where
  "mapAmenity js rawCode =
     (let normalized = filter is_upper_alnum (toUpperCase js rawCode) in
      case find (\<lambda>(key, _). str_includes normalized key) AMENITY_MAPPING of
        Some (_, t) \<Rightarrow> t
      | None \<Rightarrow> Wifi)"

section \<open>RoomFeedParser: the event handlers of parse\<close>

text \<open>
  The SAX parser turns the stream into \<^verbatim>\<open>opentag\<close>, \<^verbatim>\<open>text\<close> and \<^verbatim>\<open>closetag\<close> events;
  a tag carries its name and its attributes.
\<close>

type_synonym tagAttributes = "string \<rightharpoonup> string"

datatype event =
  OpenTag string tagAttributes
| Text string
| CloseTag string tagAttributes

text \<open>
  The variables of the closure of \<^verbatim>\<open>parse\<close>, and the calls of \<^verbatim>\<open>onRoomFound\<close> made so
  far, each with its room, source id and hotel id.
\<close>

record parserState =
  currentHotelId :: "string option"
  currentRoom :: "staysRoom option"
  currentRate :: "staysRoomRate option"
  currentSourceId :: "string option"
  currentTag :: "string option"
  textBuffer :: string
  roomsFound :: "(staysRoom \<times> string option \<times> string option) list"

definition initialState :: parserState where
  "initialState =
     \<lparr>currentHotelId = None, currentRoom = None, currentRate = None, currentSourceId = None,
      currentTag = None, textBuffer = [], roomsFound = []\<rparr>"

text \<open>
  What an \<^verbatim>\<open>opentag\<close> handler takes from its environment: the digits drawn from
  \<^verbatim>\<open>Math.random()\<close> and the value of \<^verbatim>\<open>Date.now()\<close>. The expiry of a rate is kept as
  the number of milliseconds, not as its ISO text.
\<close>

record parserEnv =
  random_digits :: string
  date_now :: int

definition is_hotel_tag :: "string \<Rightarrow> bool" where
  "is_hotel_tag n = (n = ''Hotel'' \<or> n = ''HotelDescriptiveContent'' \<or> n = ''Property'')"

definition is_room_tag :: "string \<Rightarrow> bool" where
  "is_room_tag n = (n = ''Room'' \<or> n = ''GuestRoom'')"

definition is_rate_tag :: "string \<Rightarrow> bool" where
  "is_rate_tag n = (n = ''Rate'' \<or> n = ''RatePlan'')"

text \<open>\<^verbatim>\<open>a || ''\<close> and \<^verbatim>\<open>a || '1'\<close>: the attribute when truthy, else the default.\<close>

definition str_or :: "string option \<Rightarrow> string \<Rightarrow> string" where
  "str_or a d = (case a of Some s \<Rightarrow> if s \<noteq> [] then s else d | None \<Rightarrow> d)"

definition newRate :: "parserEnv \<Rightarrow> tagAttributes \<Rightarrow> staysRoomRate" where
  "newRate env attrs =
     \<lparr>rate_id = str_or (attrs ''id'') (''rate_'' @ random_digits env),
      rate_code = (if truthy_str (attrs ''code'') then attrs ''code'' else None),
      total_amount = ''0.00'',
      total_currency = ''USD'',
      base_amount = None,
      base_currency = ''USD'',
      tax_amount = None,
      tax_currency = ''USD'',
      fee_amount = None,
      fee_currency = ''USD'',
      due_at_accommodation_amount = None,
      due_at_accommodation_currency = ''USD'',
      payment_type = ''pay_now'',
      board_type = Room_only,
      available_payment_methods = [''card''],
      conditions = [],
      cancellation_timeline = [],
      loyalty_programme_required = False,
      supported_loyalty_programme = None,
      rate_source = ''duffel_hotel_group'',
      expires_at = date_now env + 86400000,
      rate_description = None,
      quantity_available = None\<rparr>"

definition room_of_tag :: "jsBuiltins \<Rightarrow> tagAttributes \<Rightarrow> staysRoom" where
  "room_of_tag js attrs =
     (let maxOcc = js_or (attrs ''maxOccupancy'') (attrs ''MaxOccupancy'') in
      \<lparr>name = str_or (js_or (attrs ''roomTypeName'') (attrs ''name'')) [],
       max_occupancy = (if truthy_str maxOcc then Some (parseInt js (the maxOcc)) else None),
       beds = Some [],
       photos = Some [],
       amenities = Some [],
       attributes = Some \<lparr>attr_class = None, attr_view = None\<rparr>,
       rates = Some []\<rparr>)"

text \<open>\<^verbatim>\<open>currentRoom.xs?.push(x)\<close>\<close>

definition push :: "'a \<Rightarrow> 'a list option \<Rightarrow> 'a list option" where
  "push x xs = map_option (\<lambda>ys. ys @ [x]) xs"

text \<open>Part 2 of the \<^verbatim>\<open>opentag\<close> handler, entered when a room is in progress.\<close>

definition opentag_in_room ::
  "jsBuiltins \<Rightarrow> parserEnv \<Rightarrow> string \<Rightarrow> tagAttributes \<Rightarrow> staysRoom \<Rightarrow> parserState \<Rightarrow> parserState" where
  "opentag_in_room js env n attrs room st =
     (let room =
            (if n = ''Bed''
             then room\<lparr>beds :=
                    push \<lparr>bed_type = normalizeBedType js (str_or (attrs ''type'') []),
                          bed_count = parseInt js (str_or (attrs ''count'') ''1'')\<rparr>
                      (beds room)\<rparr>
             else room);
          typeName = attrs ''name'';
          typeCode = js_or (attrs ''RoomTypeCode'') (attrs ''code'');
          room =
            (if n = ''TypeRoom'' \<and> truthy_str typeName \<and> name room = []
             then room\<lparr>name := the typeName\<rparr> else room);
          st =
            (if n = ''TypeRoom'' \<and> truthy_str typeCode \<and> \<not> truthy_str (currentSourceId st)
             then st\<lparr>currentSourceId := typeCode\<rparr> else st);
          photoUrl = js_or (attrs ''url'') (attrs ''src'');
          room =
            (if (n = ''Photo'' \<or> n = ''Image'') \<and> truthy_str photoUrl
             then room\<lparr>photos := push \<lparr>url = the photoUrl\<rparr> (photos room)\<rparr>
             else room);
          room =
            (if n = ''Amenity''
             then room\<lparr>amenities :=
                    push \<lparr>amenity_type = mapAmenity js (str_or (attrs ''code'') []),
                          amenity_description = []\<rparr>
                      (amenities room)\<rparr>
             else room);
          st = (if is_rate_tag n then st\<lparr>currentRate := Some (newRate env attrs)\<rparr> else st)
      in st\<lparr>currentRoom := Some room\<rparr>)"

definition opentag :: "jsBuiltins \<Rightarrow> parserEnv \<Rightarrow> string \<Rightarrow> tagAttributes \<Rightarrow> parserState \<Rightarrow> parserState" where
  "opentag js env n attrs st =
     (let st = st\<lparr>currentTag := Some n, textBuffer := []\<rparr>;
          st =
            (if is_hotel_tag n
             then st\<lparr>currentHotelId :=
                    js_or (js_or (js_or (attrs ''HotelCode'') (attrs ''HotelID'')) (attrs ''id''))
                      (attrs ''Code'')\<rparr>
             else st);
          st =
            (if is_room_tag n
             then st\<lparr>currentSourceId :=
                      js_or (js_or (js_or (attrs ''id'') (attrs ''code'')) (attrs ''RoomTypeCode''))
                        (attrs ''RoomID''),
                    currentRoom := Some (room_of_tag js attrs)\<rparr>
             else st)
      in case currentRoom st of
           Some room \<Rightarrow> opentag_in_room js env n attrs room st
         | None \<Rightarrow> st)"

definition text_event :: "string \<Rightarrow> parserState \<Rightarrow> parserState" where
  "text_event t st =
     (case currentRoom st of
        None \<Rightarrow> st
      | Some _ \<Rightarrow> st\<lparr>textBuffer := textBuffer st @ t\<rparr>)"

text \<open>\<^verbatim>\<open>existingBed.count++\<close>\<close>

fun increment :: "jsnum \<Rightarrow> jsnum" where
  "increment NaN = NaN"
| "increment (Num n) = Num (n + 1)"

text \<open>The bed that \<^verbatim>\<open>beds.find(b => b.type === type)\<close> returns is the first of its type.\<close>

fun increment_first :: "staysBedType \<Rightarrow> staysBed list \<Rightarrow> staysBed list" where
  "increment_first t [] = []"
| "increment_first t (b # bs) =
     (if bed_type b = t then b\<lparr>bed_count := increment (bed_count b)\<rparr> # bs
      else b # increment_first t bs)"

definition aggregate_bed :: "staysBedType \<Rightarrow> staysBed list \<Rightarrow> staysBed list" where
  "aggregate_bed t bs =
     (case find (\<lambda>b. bed_type b = t) bs of
        Some existingBed \<Rightarrow> increment_first t bs
      | None \<Rightarrow> bs @ [\<lparr>bed_type = t, bed_count = Num 1\<rparr>])"

text \<open>\<^verbatim>\<open>if (!currentRoom.attributes) currentRoom.attributes = {}\<close>\<close>

definition attributes_or_empty :: "staysRoom \<Rightarrow> roomAttributes" where
  "attributes_or_empty room =
     (case attributes room of
        Some a \<Rightarrow> a
      | None \<Rightarrow> \<lparr>attr_class = None, attr_view = None\<rparr>)"

text \<open>Part 3 of the \<^verbatim>\<open>closetag\<close> handler: the text content goes to a field of the room.\<close>

definition closetag_room_fields :: "jsBuiltins \<Rightarrow> string \<Rightarrow> string \<Rightarrow> staysRoom \<Rightarrow> staysRoom" where
  "closetag_room_fields js n content room =
     (if n = ''Name'' \<or> n = ''RoomName'' then room\<lparr>name := content\<rparr>
      else if n = ''MaxOccupancy'' then room\<lparr>max_occupancy := Some (parseInt js content)\<rparr>
      else if n = ''Description'' then room
      else if n = ''BedType''
      then room\<lparr>beds := map_option (aggregate_bed (normalizeBedType js content)) (beds room)\<rparr>
      else if n = ''RoomCategory''
      then room\<lparr>attributes := Some ((attributes_or_empty room)\<lparr>attr_class := Some content\<rparr>)\<rparr>
      else if n = ''RoomView''
      then room\<lparr>attributes := Some ((attributes_or_empty room)\<lparr>attr_view := Some content\<rparr>)\<rparr>
      else if n = ''RoomAmenity''
      then (if content \<noteq> []
            then room\<lparr>amenities :=
                   push \<lparr>amenity_type = mapAmenity js content, amenity_description = content\<rparr>
                     (amenities room)\<rparr>
            else room)
      else if n = ''Amenity''
      then (case amenities room of
              Some as \<Rightarrow>
                if as \<noteq> []
                then room\<lparr>amenities :=
                       Some (butlast as @ [(last as)\<lparr>amenity_description := content\<rparr>])\<rparr>
                else room
            | None \<Rightarrow> room)
      else room)"

text \<open>The fields of the rate in progress that a closing tag sets.\<close>

definition closetag_rate_fields ::
  "jsBuiltins \<Rightarrow> string \<Rightarrow> tagAttributes \<Rightarrow> string \<Rightarrow> staysRoomRate \<Rightarrow> staysRoomRate" where
  "closetag_rate_fields js n attrs content rate =
     (if n = ''Amount'' \<or> n = ''Total''
      then (let rate = rate\<lparr>total_amount := content\<rparr> in
            if truthy_str (attrs ''currency'')
            then (let currency = the (attrs ''currency'') in
                  rate\<lparr>total_currency := currency,
                       base_currency := currency,
                       tax_currency := currency,
                       fee_currency := currency,
                       due_at_accommodation_currency := currency\<rparr>)
            else rate)
      else if n = ''Meals'' \<or> n = ''Board''
      then (let lower = toLowerCase js content in
            if str_includes lower ''breakfast'' then rate\<lparr>board_type := Breakfast\<rparr>
            else if str_includes lower ''all'' then rate\<lparr>board_type := All_inclusive\<rparr>
            else rate)
      else rate)"

definition closetag :: "jsBuiltins \<Rightarrow> string \<Rightarrow> tagAttributes \<Rightarrow> parserState \<Rightarrow> parserState" where
  "closetag js n attrs st =
     (case currentRoom st of
        None \<Rightarrow> st
      | Some room \<Rightarrow>
          (let content = trim js (textBuffer st);
               st = (if is_hotel_tag n then st\<lparr>currentHotelId := None\<rparr> else st)
           in if currentRate st \<noteq> None \<and> is_rate_tag n
              then st\<lparr>currentRoom := Some (room\<lparr>rates := push (the (currentRate st)) (rates room)\<rparr>),
                      currentRate := None,
                      currentTag := None\<rparr>
              else
                (let st = st\<lparr>currentRate :=
                              map_option (closetag_rate_fields js n attrs content) (currentRate st)\<rparr>;
                     room = closetag_room_fields js n content room;
                     st = st\<lparr>currentRoom := Some room\<rparr>;
                     st =
                       (if is_room_tag n
                        then st\<lparr>roomsFound :=
                                 (if name room \<noteq> []
                                  then roomsFound st @ [(room, currentSourceId st, currentHotelId st)]
                                  else roomsFound st),
                               currentRoom := None,
                               currentSourceId := None\<rparr>
                        else st)
                 in st\<lparr>currentTag := None\<rparr>)))"

fun handle :: "jsBuiltins \<Rightarrow> parserEnv \<Rightarrow> event \<Rightarrow> parserState \<Rightarrow> parserState" where
  "handle js env (OpenTag n attrs) st = opentag js env n attrs st"
| "handle js env (Text t) st = text_event t st"
| "handle js env (CloseTag n attrs) st = closetag js n attrs st"

text \<open>
  The events of a document in order; the handler of the \<open>i\<close>-th event runs in the
  environment \<open>env i\<close>.
\<close>

fun run :: "jsBuiltins \<Rightarrow> (nat \<Rightarrow> parserEnv) \<Rightarrow> nat \<Rightarrow> event list \<Rightarrow> parserState \<Rightarrow> parserState" where
  "run js env i [] st = st"
| "run js env i (e # es) st = run js env (Suc i) es (handle js (env i) e st)"

definition parse ::
  "jsBuiltins \<Rightarrow> (nat \<Rightarrow> parserEnv) \<Rightarrow> event list \<Rightarrow> (staysRoom \<times> string option \<times> string option) list" where
  "parse js env events = roomsFound (run js env 0 events initialState)"

section \<open>The datastore behind the Prisma client\<close>

text \<open>
  Modelled from the spec: the Prisma schema is not among the sources, so each table is
  a list of rows carrying the columns of the spec's data model, which are the columns
  the service reads and writes. \<^verbatim>\<open>findFirst\<close> and \<^verbatim>\<open>findUnique\<close> are \<^const>\<open>find\<close> on the
  list, \<^verbatim>\<open>create\<close> appends a row under the id the datastore assigns, and \<^verbatim>\<open>update\<close>
  rewrites the rows carrying the given id.
\<close>

datatype mappingType = Automatic | Manual | Verified

record hotelMapping =
  hm_id :: string
  hm_hotelId :: string
  hm_source :: string
  hm_sourceId :: string

record room =
  r_id :: string
  r_hotelId :: string
  r_name :: string
  r_description :: "string option"
  r_maxOccupancy :: "int option"

record roomMapping =
  rm_id :: string
  rm_roomId :: string
  rm_hotelMappingId :: string
  rm_source :: string
  rm_sourceId :: string
  rm_sourceData :: staysRoom
  rm_confidence :: real
  rm_mappingType :: mappingType
  rm_isPrimary :: bool
  rm_lastSyncedAt :: int
  rm_qualityScore :: int

datatype enrichmentContent = Images "staysPhoto list" | Amenities "staysAmenity list"

record roomContentEnrichment =
  en_id :: string
  en_roomId :: string
  en_source :: string
  en_fieldName :: string
  en_content :: enrichmentContent
  en_quality :: string
  en_enrichedAt :: "int option"

record conflictEntry =
  ce_source :: string
  ce_value :: jsvalue
  ce_detectedAt :: int

datatype conflictStatus = Open | Resolved

datatype resolutionStrategy = Keep_internal | Apply_source

record mappingConflict =
  mc_id :: string
  mc_entityType :: string
  mc_entityId :: string
  mc_fieldName :: string
  mc_conflictingSources :: "conflictEntry list"
  mc_status :: conflictStatus
  mc_resolution :: "resolutionStrategy option"
  mc_resolvedAt :: "int option"

record datastore =
  hotelMappings :: "hotelMapping list"
  roomMappings :: "roomMapping list"
  rooms :: "room list"
  roomContentEnrichments :: "roomContentEnrichment list"
  mappingConflicts :: "mappingConflict list"

text \<open>What a failing call throws.\<close>

datatype error =
  Conflict_not_found
| Source_not_found string
| Record_not_found
| Invalid_field string

text \<open>
  \<^verbatim>\<open>prisma.$transaction\<close>: the writes of a body that throws are rolled back.
\<close>

definition transaction ::
  "(datastore \<Rightarrow> error + 'a \<times> datastore) \<Rightarrow> datastore \<Rightarrow> (error + 'a) \<times> datastore" where
  "transaction body db =
     (case body db of
        Inl e \<Rightarrow> (Inl e, db)
      | Inr (x, db') \<Rightarrow> (Inr x, db'))"

section \<open>EnterpriseHotelRoomMappingService: mapRoom\<close>

record roomMappingOptions =
  opt_confidence :: "real option"
  opt_mappingType :: "mappingType option"
  opt_isPrimary :: "bool option"

text \<open>
  What one \<^verbatim>\<open>mapRoom\<close> call takes from its environment: the value of each
  \<^verbatim>\<open>new Date()\<close> it evaluates, and the id the datastore gives each row it creates.
\<close>

record mapRoomEnv =
  t_synced :: int
  t_entry :: int
  t_internal :: int
  t_images :: int
  t_amenities :: int
  id_room :: string
  id_mapping :: string
  id_conflict :: string
  id_images :: string
  id_amenities :: string

text \<open>\<^verbatim>\<open>sources.findIndex(p)\<close>: the first index whose element satisfies \<open>p\<close>.\<close>

fun findIndex :: "('a \<Rightarrow> bool) \<Rightarrow> 'a list \<Rightarrow> nat option" where
  "findIndex p [] = None"
| "findIndex p (x # xs) =
     (if p x then Some 0 else map_option Suc (findIndex p xs))"

definition is_open_conflict :: "string \<Rightarrow> string \<Rightarrow> string \<Rightarrow> mappingConflict \<Rightarrow> bool" where
  "is_open_conflict entityType entityId fieldName c =
     (mc_entityType c = entityType \<and> mc_entityId c = entityId \<and>
      mc_fieldName c = fieldName \<and> mc_status c = Open)"

definition upsertConflict ::
  "mapRoomEnv \<Rightarrow> string \<Rightarrow> string \<Rightarrow> string \<Rightarrow> string \<Rightarrow> jsvalue \<Rightarrow> jsvalue \<Rightarrow>
   datastore \<Rightarrow> datastore" where
  "upsertConflict env entityType entityId fieldName source newValue currentValue db =
     (let existing = find (is_open_conflict entityType entityId fieldName) (mappingConflicts db);
          conflictEntry = \<lparr>ce_source = source, ce_value = newValue, ce_detectedAt = t_entry env\<rparr>
      in case existing of
           Some existing \<Rightarrow>
             (let sources = mc_conflictingSources existing;
                  sources =
                    (case findIndex (\<lambda>s. ce_source s = source) sources of
                       Some sourceIndex \<Rightarrow> sources[sourceIndex := conflictEntry]
                     | None \<Rightarrow> sources @ [conflictEntry])
              in db\<lparr>mappingConflicts :=
                      map (\<lambda>c. if mc_id c = mc_id existing
                                then c\<lparr>mc_conflictingSources := sources\<rparr> else c)
                        (mappingConflicts db)\<rparr>)
         | None \<Rightarrow>
             db\<lparr>mappingConflicts := mappingConflicts db @
                   [\<lparr>mc_id = id_conflict env,
                     mc_entityType = entityType,
                     mc_entityId = entityId,
                     mc_fieldName = fieldName,
                     mc_conflictingSources =
                       [\<lparr>ce_source = ''internal'', ce_value = currentValue,
                          ce_detectedAt = t_internal env\<rparr>,
                        conflictEntry],
                     mc_status = Open,
                     mc_resolution = None,
                     mc_resolvedAt = None\<rparr>]\<rparr>)"

text \<open>
  Both operands of the test are numbers that passed the truthiness test, so
  \<^verbatim>\<open>!==\<close> is inequality of integers.
\<close>

definition detectAndRecordConflicts ::
  "mapRoomEnv \<Rightarrow> room \<Rightarrow> string \<Rightarrow> staysRoom \<Rightarrow> datastore \<Rightarrow> datastore" where
  "detectAndRecordConflicts env internalRoom source incomingData db =
     (case (r_maxOccupancy internalRoom, max_occupancy incomingData) of
        (Some internal, Some (Num incoming)) \<Rightarrow>
          if internal \<noteq> 0 \<and> incoming \<noteq> 0 \<and> internal \<noteq> incoming
          then upsertConflict env ''room'' (r_id internalRoom) ''maxOccupancy'' source
                 (JNum incoming) (JNum internal) db
          else db
      | _ \<Rightarrow> db)"

definition upsertRoomEnrichment ::
  "int \<Rightarrow> string \<Rightarrow> string \<Rightarrow> string \<Rightarrow> string \<Rightarrow> enrichmentContent \<Rightarrow> string \<Rightarrow>
   datastore \<Rightarrow> datastore" where
  "upsertRoomEnrichment now new_id roomId source fieldName content quality db =
     (case find (\<lambda>e. en_roomId e = roomId \<and> en_source e = source \<and> en_fieldName e = fieldName)
             (roomContentEnrichments db) of
        Some existing \<Rightarrow>
          db\<lparr>roomContentEnrichments :=
               map (\<lambda>e. if en_id e = en_id existing
                         then e\<lparr>en_content := content, en_enrichedAt := Some now,
                                en_quality := quality\<rparr>
                         else e)
                 (roomContentEnrichments db)\<rparr>
      | None \<Rightarrow>
          db\<lparr>roomContentEnrichments := roomContentEnrichments db @
                [\<lparr>en_id = new_id, en_roomId = roomId, en_source = source,
                  en_fieldName = fieldName, en_content = content, en_quality = quality,
                  en_enrichedAt = None\<rparr>]\<rparr>)"

text \<open>
  \<^verbatim>\<open>[class, view].filter(Boolean).join(', ') || null\<close>, the description of a new room.
\<close>

fun join_comma :: "string list \<Rightarrow> string" where
  "join_comma [] = []"
| "join_comma [x] = x"
| "join_comma (x # y # ys) = x @ '', '' @ join_comma (y # ys)"

definition description_fallback :: "staysRoom \<Rightarrow> string option" where
  "description_fallback roomData =
     (let cls = (case attributes roomData of None \<Rightarrow> None | Some a \<Rightarrow> attr_class a);
          view = (case attributes roomData of None \<Rightarrow> None | Some a \<Rightarrow> attr_view a);
          joined = join_comma (map the (filter truthy_str [cls, view]))
      in if joined = [] then None else Some joined)"

text \<open>\<^verbatim>\<open>roomData.max_occupancy || 2\<close>\<close>

fun max_occupancy_or_2 :: "jsnum option \<Rightarrow> int" where
  "max_occupancy_or_2 (Some (Num n)) = (if n \<noteq> 0 then n else 2)"
| "max_occupancy_or_2 _ = 2"

definition same_mapping_key :: "string \<Rightarrow> string \<Rightarrow> string \<Rightarrow> roomMapping \<Rightarrow> bool" where
  "same_mapping_key source roomSourceId hotelMappingId m =
     (rm_source m = source \<and> rm_sourceId m = roomSourceId \<and>
      rm_hotelMappingId m = hotelMappingId)"

text \<open>
  Steps 2 and 3 of the transaction body of \<^verbatim>\<open>mapRoom\<close> (the lookup of the existing
  mapping and both branches of the \<^verbatim>\<open>if (existingMapping)\<close>): they yield
  \<^verbatim>\<open>roomId\<close>, \<^verbatim>\<open>currentRoom\<close> and the datastore as written so far.
  \<^verbatim>\<open>existingMapping.room\<close> is the row of \<^verbatim>\<open>rooms\<close> the mapping's \<^verbatim>\<open>roomId\<close> refers to.
\<close>

definition mapRoom_mapping ::
  "mapRoomEnv \<Rightarrow> hotelMapping \<Rightarrow> string \<Rightarrow> string \<Rightarrow> staysRoom \<Rightarrow> real \<Rightarrow> mappingType \<Rightarrow> bool \<Rightarrow>
   int \<Rightarrow> datastore \<Rightarrow> string \<times> room option \<times> datastore" where
  "mapRoom_mapping env hotelMapping roomSourceId source roomData confidence mappingType
       isPrimary qualityScore db =
     (case find (same_mapping_key source roomSourceId (hm_id hotelMapping)) (roomMappings db) of
        Some existingMapping \<Rightarrow>
          (rm_roomId existingMapping,
           find (\<lambda>r. r_id r = rm_roomId existingMapping) (rooms db),
           db\<lparr>roomMappings :=
                map (\<lambda>m. if rm_id m = rm_id existingMapping
                          then (if rm_mappingType existingMapping \<noteq> Verified
                                then m\<lparr>rm_sourceData := roomData,
                                       rm_lastSyncedAt := t_synced env,
                                       rm_qualityScore := qualityScore,
                                       rm_confidence := confidence,
                                       rm_mappingType := mappingType\<rparr>
                                else m\<lparr>rm_sourceData := roomData,
                                       rm_lastSyncedAt := t_synced env,
                                       rm_qualityScore := qualityScore\<rparr>)
                          else m)
                  (roomMappings db)\<rparr>)
      | None \<Rightarrow>
          (let (roomId, currentRoom', db) =
                 (case find (\<lambda>r. r_hotelId r = hm_hotelId hotelMapping \<and> r_name r = name roomData)
                         (rooms db) of
                    Some existingRoom \<Rightarrow> (r_id existingRoom, existingRoom, db)
                  | None \<Rightarrow>
                      (let newRoom =
                             \<lparr>r_id = id_room env,
                              r_hotelId = hm_hotelId hotelMapping,
                              r_name = name roomData,
                              r_description = description_fallback roomData,
                              r_maxOccupancy = Some (max_occupancy_or_2 (max_occupancy roomData))\<rparr>
                       in (r_id newRoom, newRoom, db\<lparr>rooms := rooms db @ [newRoom]\<rparr>)))
           in (roomId, Some currentRoom',
               db\<lparr>roomMappings := roomMappings db @
                    [\<lparr>rm_id = id_mapping env,
                      rm_roomId = roomId,
                      rm_hotelMappingId = hm_id hotelMapping,
                      rm_source = source,
                      rm_sourceId = roomSourceId,
                      rm_sourceData = roomData,
                      rm_confidence = confidence,
                      rm_mappingType = mappingType,
                      rm_isPrimary = isPrimary,
                      rm_lastSyncedAt = t_synced env,
                      rm_qualityScore = qualityScore\<rparr>]\<rparr>)))"

text \<open>The values \<^verbatim>\<open>mapRoom\<close> destructures from its options, with their defaults.\<close>

definition supplied_confidence :: "roomMappingOptions \<Rightarrow> real" where
  "supplied_confidence options = (case opt_confidence options of None \<Rightarrow> 8 / 10 | Some c \<Rightarrow> c)"

definition supplied_mappingType :: "roomMappingOptions \<Rightarrow> mappingType" where
  "supplied_mappingType options =
     (case opt_mappingType options of None \<Rightarrow> Automatic | Some t \<Rightarrow> t)"

definition supplied_isPrimary :: "roomMappingOptions \<Rightarrow> bool" where
  "supplied_isPrimary options = (case opt_isPrimary options of None \<Rightarrow> False | Some p \<Rightarrow> p)"

text \<open>
  \<^verbatim>\<open>mapRoom\<close>. Nothing in the transaction body throws, so the transaction commits
  what the body wrote; a missing parent hotel mapping ends the body with no write.
\<close>

definition mapRoom ::
  "mapRoomEnv \<Rightarrow> string \<Rightarrow> string \<Rightarrow> string \<Rightarrow> staysRoom \<Rightarrow> roomMappingOptions \<Rightarrow>
   datastore \<Rightarrow> datastore" where
  "mapRoom env hotelSourceId roomSourceId source roomData options db =
     (let confidence = supplied_confidence options;
          mappingType = supplied_mappingType options;
          isPrimary = supplied_isPrimary options;
          qualityScore = calculateQualityScore roomData
      in case find (\<lambda>h. hm_source h = source \<and> hm_sourceId h = hotelSourceId) (hotelMappings db) of
           None \<Rightarrow> db
         | Some hotelMapping \<Rightarrow>
             (let (roomId, currentRoom', db) =
                    mapRoom_mapping env hotelMapping roomSourceId source roomData confidence
                      mappingType isPrimary qualityScore db;
                  db = (case currentRoom' of
                          Some currentRoom' \<Rightarrow>
                            detectAndRecordConflicts env currentRoom' source roomData db
                        | None \<Rightarrow> db);
                  db = (case photos roomData of
                          Some ps \<Rightarrow>
                            if ps \<noteq> []
                            then upsertRoomEnrichment (t_images env) (id_images env) roomId source
                                   ''images'' (Images ps) ''pending'' db
                            else db
                        | None \<Rightarrow> db);
                  db = (case amenities roomData of
                          Some as \<Rightarrow>
                            if as \<noteq> []
                            then upsertRoomEnrichment (t_amenities env) (id_amenities env) roomId
                                   source ''amenities'' (Amenities as) ''pending'' db
                            else db
                        | None \<Rightarrow> db)
              in db))"

section \<open>EnterpriseHotelRoomMappingService: resolveConflict\<close>

text \<open>
  Modelled from the spec: the Prisma schema is not among the sources. The columns of a
  room are those of the spec's data model, \<^verbatim>\<open>id\<close>, \<^verbatim>\<open>hotelId\<close>, \<^verbatim>\<open>name\<close>, \<^verbatim>\<open>description\<close>
  and \<^verbatim>\<open>maxOccupancy\<close>, each with the type of what \<^verbatim>\<open>mapRoom\<close> writes into it: strings
  for the first three, a string or \<^verbatim>\<open>null\<close> for the description, a number or \<^verbatim>\<open>null\<close>
  for \<^verbatim>\<open>maxOccupancy\<close>. \<^verbatim>\<open>room_data\<close> is the write \<^verbatim>\<open>data: { [fieldName]: value }\<close> as
  a change of a row, and is \<^const>\<open>None\<close> when the client rejects it, the field being no
  column or the value not of the column's type; \<^verbatim>\<open>room_field\<close> reads a column.
\<close>

definition room_data :: "string \<Rightarrow> jsvalue \<Rightarrow> (room \<Rightarrow> room) option" where
  "room_data fieldName v =
     (if fieldName = ''id''
      then (case v of JStr s \<Rightarrow> Some (\<lambda>r. r\<lparr>r_id := s\<rparr>) | _ \<Rightarrow> None)
      else if fieldName = ''hotelId''
      then (case v of JStr s \<Rightarrow> Some (\<lambda>r. r\<lparr>r_hotelId := s\<rparr>) | _ \<Rightarrow> None)
      else if fieldName = ''name''
      then (case v of JStr s \<Rightarrow> Some (\<lambda>r. r\<lparr>r_name := s\<rparr>) | _ \<Rightarrow> None)
      else if fieldName = ''description''
      then (case v of
              JStr s \<Rightarrow> Some (\<lambda>r. r\<lparr>r_description := Some s\<rparr>)
            | JNull \<Rightarrow> Some (\<lambda>r. r\<lparr>r_description := None\<rparr>)
            | _ \<Rightarrow> None)
      else if fieldName = ''maxOccupancy''
      then (case v of
              JNum n \<Rightarrow> Some (\<lambda>r. r\<lparr>r_maxOccupancy := Some n\<rparr>)
            | JNull \<Rightarrow> Some (\<lambda>r. r\<lparr>r_maxOccupancy := None\<rparr>)
            | _ \<Rightarrow> None)
      else None)"

definition room_field :: "string \<Rightarrow> room \<Rightarrow> jsvalue option" where
  "room_field fieldName r =
     (if fieldName = ''id'' then Some (JStr (r_id r))
      else if fieldName = ''hotelId'' then Some (JStr (r_hotelId r))
      else if fieldName = ''name'' then Some (JStr (r_name r))
      else if fieldName = ''description''
      then Some (case r_description r of None \<Rightarrow> JNull | Some s \<Rightarrow> JStr s)
      else if fieldName = ''maxOccupancy''
      then Some (case r_maxOccupancy r of None \<Rightarrow> JNull | Some n \<Rightarrow> JNum n)
      else None)"

text \<open>
  \<^verbatim>\<open>tx.room.update({ where: { id }, data: { [fieldName]: value } })\<close>: the client rejects
  data it cannot write, and an update of a row that does not exist throws.
\<close>

definition room_update_field :: "string \<Rightarrow> string \<Rightarrow> jsvalue \<Rightarrow> datastore \<Rightarrow> error + datastore" where
  "room_update_field entityId fieldName v db =
     (case room_data fieldName v of
        None \<Rightarrow> Inl (Invalid_field fieldName)
      | Some upd \<Rightarrow>
          (case find (\<lambda>r. r_id r = entityId) (rooms db) of
             None \<Rightarrow> Inl Record_not_found
           | Some _ \<Rightarrow>
               Inr (db\<lparr>rooms := map (\<lambda>r. if r_id r = entityId then upd r else r)
                                  (rooms db)\<rparr>)))"

text \<open>The body of the transaction of \<^verbatim>\<open>resolveConflict\<close>; it yields \<^verbatim>\<open>resolvedConflict\<close>.\<close>

definition resolveConflict_body ::
  "int \<Rightarrow> string \<Rightarrow> resolutionStrategy \<Rightarrow> string option \<Rightarrow> datastore \<Rightarrow>
   error + mappingConflict \<times> datastore" where
  "resolveConflict_body now conflictId resolutionStrategy sourceToApply db =
     (case find (\<lambda>c. mc_id c = conflictId) (mappingConflicts db) of
        None \<Rightarrow> Inl Conflict_not_found
      | Some conflict \<Rightarrow>
          (let applied =
                 (case sourceToApply of
                    Some src \<Rightarrow>
                      if resolutionStrategy = Apply_source \<and> src \<noteq> []
                      then (case find (\<lambda>s. ce_source s = src) (mc_conflictingSources conflict) of
                              None \<Rightarrow> Inl (Source_not_found src)
                            | Some sourceEntry \<Rightarrow>
                                if mc_entityType conflict = ''room''
                                then room_update_field (mc_entityId conflict)
                                       (mc_fieldName conflict) (ce_value sourceEntry) db
                                else Inr db)
                      else Inr db
                  | None \<Rightarrow> Inr db)
           in case applied of
                Inl e \<Rightarrow> Inl e
              | Inr db \<Rightarrow>
                  Inr (conflict\<lparr>mc_status := Resolved,
                                mc_resolution := Some resolutionStrategy,
                                mc_resolvedAt := Some now\<rparr>,
                       db\<lparr>mappingConflicts :=
                            map (\<lambda>c. if mc_id c = conflictId
                                      then c\<lparr>mc_status := Resolved,
                                             mc_resolution := Some resolutionStrategy,
                                             mc_resolvedAt := Some now\<rparr>
                                      else c)
                              (mappingConflicts db)\<rparr>)))"

text \<open>
  \<^verbatim>\<open>resolveConflict\<close>: the outcome (the error thrown, or the conflict record emitted
  as \<^verbatim>\<open>conflict:resolved\<close>) and the datastore after the call.
\<close>

definition resolveConflict ::
  "int \<Rightarrow> string \<Rightarrow> resolutionStrategy \<Rightarrow> string option \<Rightarrow> datastore \<Rightarrow>
   (error + mappingConflict) \<times> datastore" where
  "resolveConflict now conflictId resolutionStrategy sourceToApply db =
     transaction (resolveConflict_body now conflictId resolutionStrategy sourceToApply) db"

section \<open>Notions used to state the properties\<close>

text \<open>The key of a RoomMapping: its source, its source id and its hotel mapping.\<close>

definition mapping_key :: "roomMapping \<Rightarrow> string \<times> string \<times> string" where
  "mapping_key m = (rm_source m, rm_sourceId m, rm_hotelMappingId m)"

text \<open>
  The canonical room a \<^verbatim>\<open>mapRoom\<close> call compares the incoming room with: the value
  of \<^verbatim>\<open>currentRoom\<close> after steps 2 and 3, when the parent hotel mapping exists.
\<close>

definition canonical_room ::
  "mapRoomEnv \<Rightarrow> string \<Rightarrow> string \<Rightarrow> string \<Rightarrow> staysRoom \<Rightarrow> roomMappingOptions \<Rightarrow> datastore \<Rightarrow> room option" where
  "canonical_room env hotelSourceId roomSourceId source roomData options db =
     (case find (\<lambda>h. hm_source h = source \<and> hm_sourceId h = hotelSourceId) (hotelMappings db) of
        None \<Rightarrow> None
      | Some hotelMapping \<Rightarrow>
          fst (snd (mapRoom_mapping env hotelMapping roomSourceId source roomData
            (supplied_confidence options) (supplied_mappingType options)
            (supplied_isPrimary options) (calculateQualityScore roomData) db)))"

text \<open>What \<^verbatim>\<open>resolveConflict\<close> writes into the conflict it resolves.\<close>

definition mark_resolved :: "int \<Rightarrow> resolutionStrategy \<Rightarrow> mappingConflict \<Rightarrow> mappingConflict" where
  "mark_resolved now strategy c =
     c\<lparr>mc_status := Resolved, mc_resolution := Some strategy, mc_resolvedAt := Some now\<rparr>"

text \<open>
  The invariants of the conflict table: at most one open conflict for an entity type,
  entity id and field name, and within a conflict at most one entry for a source.
\<close>

definition conflict_key :: "mappingConflict \<Rightarrow> string \<times> string \<times> string" where
  "conflict_key c = (mc_entityType c, mc_entityId c, mc_fieldName c)"

definition open_conflicts_unique :: "mappingConflict list \<Rightarrow> bool" where
  "open_conflicts_unique cs = distinct (map conflict_key (filter (\<lambda>c. mc_status c = Open) cs))"



text \<open>The five amount/currency pairs of a rate: total, base, tax, fee, due at accommodation.\<close>

definition monetary_fields ::
  "staysRoomRate \<Rightarrow> (string \<times> string) \<times> (string option \<times> string) \<times> (string option \<times> string) \<times>
     (string option \<times> string) \<times> (string option \<times> string)" where
  "monetary_fields rate =
     ((total_amount rate, total_currency rate),
      (base_amount rate, base_currency rate),
      (tax_amount rate, tax_currency rate),
      (fee_amount rate, fee_currency rate),
      (due_at_accommodation_amount rate, due_at_accommodation_currency rate))"

text \<open>
  An event inside a Rate/RatePlan element that neither overrides the monetary fields
  (no closing Amount or Total tag) nor starts or ends a rate or a room.
\<close>

fun keeps_rate :: "event \<Rightarrow> bool" where
  "keeps_rate (OpenTag n attrs) = (\<not> is_room_tag n \<and> \<not> is_rate_tag n)"
| "keeps_rate (Text t) = True"
| "keeps_rate (CloseTag n attrs) =
     (\<not> is_room_tag n \<and> \<not> is_rate_tag n \<and> n \<noteq> ''Amount'' \<and> n \<noteq> ''Total'')"

text \<open>
  A rate is in progress with the monetary fields it was opened with, in a room whose
  rate list is \<open>rs\<close>.
\<close>

definition rate_in_progress :: "staysRoomRate list \<Rightarrow> parserState \<Rightarrow> bool" where
  "rate_in_progress rs st =
     (case (currentRoom st, currentRate st) of
        (Some room, Some rate) \<Rightarrow>
          rates room = Some rs \<and>
          monetary_fields rate =
            ((''0.00'', ''USD''), (None, ''USD''), (None, ''USD''), (None, ''USD''), (None, ''USD''))
      | _ \<Rightarrow> False)"

text \<open>
  The content of a room element in which every BedType tag has text that normalizes to
  \<open>t\<close>, no Bed tag has a type that normalizes to \<open>t\<close>, and no room tag is nested. The
  second argument is the text buffer the parser holds when the events start; the
  text of a BedType tag is what the buffer holds, trimmed, when the tag closes.
\<close>

fun bedtype_only :: "jsBuiltins \<Rightarrow> staysBedType \<Rightarrow> string \<Rightarrow> event list \<Rightarrow> bool" where
  "bedtype_only js t buf [] = True"
| "bedtype_only js t buf (OpenTag n attrs # es) =
     (\<not> is_room_tag n \<and>
      (n = ''Bed'' \<longrightarrow> normalizeBedType js (str_or (attrs ''type'') []) \<noteq> t) \<and>
      bedtype_only js t [] es)"
| "bedtype_only js t buf (Text x # es) = bedtype_only js t (buf @ x) es"
| "bedtype_only js t buf (CloseTag n attrs # es) =
     (\<not> is_room_tag n \<and>
      (n = ''BedType'' \<longrightarrow> normalizeBedType js (trim js buf) = t) \<and>
      bedtype_only js t buf es)"

fun is_BedType_close :: "event \<Rightarrow> bool" where
  "is_BedType_close (CloseTag n attrs) = (n = ''BedType'')"
| "is_BedType_close _ = False"

text \<open>The entries of a room's bed list for one bed type.\<close>

definition beds_of_type :: "staysBedType \<Rightarrow> staysRoom \<Rightarrow> staysBed list" where
  "beds_of_type t room =
     (case beds room of None \<Rightarrow> [] | Some bs \<Rightarrow> filter (\<lambda>b. bed_type b = t) bs)"

text \<open>
  A room is in progress whose bed list holds, for the type \<open>t\<close>, no entry when \<open>k\<close> is
  zero and otherwise the single entry with count \<open>k\<close>.
\<close>

definition counted :: "staysBedType \<Rightarrow> nat \<Rightarrow> parserState \<Rightarrow> bool" where
  "counted t k st =
     (case currentRoom st of
        None \<Rightarrow> False
      | Some room \<Rightarrow>
          beds room \<noteq> None \<and>
          beds_of_type t room =
            (if k = 0 then [] else [\<lparr>bed_type = t, bed_count = Num (int k)\<rparr>]))"

section \<open>Example data\<close>

definition emptyStore :: datastore where
  "emptyStore =
     \<lparr>hotelMappings = [], roomMappings = [], rooms = [], roomContentEnrichments = [],
      mappingConflicts = []\<rparr>"

definition standardRoom :: "int \<Rightarrow> staysRoom" where
  "standardRoom occ =
     \<lparr>name = ''Standard Room'', max_occupancy = Some (Num occ), beds = None,
      photos = Some [], amenities = Some [], attributes = None, rates = None\<rparr>"

definition hm_1 :: hotelMapping where
  "hm_1 = \<lparr>hm_id = ''hm_1'', hm_hotelId = ''h_1'', hm_source = ''provider_b'',
           hm_sourceId = ''h_src_1''\<rparr>"

definition r_1 :: room where
  "r_1 = \<lparr>r_id = ''r_1'', r_hotelId = ''h_1'', r_name = ''Standard Room'',
          r_description = None, r_maxOccupancy = Some 2\<rparr>"

definition rm_1 :: "mappingType \<Rightarrow> roomMapping" where
  "rm_1 t =
     \<lparr>rm_id = ''rm_1'', rm_roomId = ''r_1'', rm_hotelMappingId = ''hm_1'',
      rm_source = ''provider_b'', rm_sourceId = ''r_src_1'', rm_sourceData = standardRoom 2,
      rm_confidence = 1, rm_mappingType = t, rm_isPrimary = True, rm_lastSyncedAt = 1000,
      rm_qualityScore = 20\<rparr>"

definition mappedStore :: "mappingType \<Rightarrow> datastore" where
  "mappedStore t =
     \<lparr>hotelMappings = [hm_1], roomMappings = [rm_1 t], rooms = [r_1],
      roomContentEnrichments = [], mappingConflicts = []\<rparr>"

definition env_at :: "int \<Rightarrow> mapRoomEnv" where
  "env_at t =
     \<lparr>t_synced = t, t_entry = t, t_internal = t, t_images = t, t_amenities = t,
      id_room = ''r_new'', id_mapping = ''rm_new'', id_conflict = ''conf_new'',
      id_images = ''en_images'', id_amenities = ''en_amenities''\<rparr>"

definition noOptions :: roomMappingOptions where
  "noOptions = \<lparr>opt_confidence = None, opt_mappingType = None, opt_isPrimary = None\<rparr>"

definition conf_1 :: mappingConflict where
  "conf_1 =
     \<lparr>mc_id = ''conf_1'', mc_entityType = ''room'', mc_entityId = ''r_1'',
      mc_fieldName = ''maxOccupancy'',
      mc_conflictingSources =
        [\<lparr>ce_source = ''internal'', ce_value = JNum 2, ce_detectedAt = 1500\<rparr>,
         \<lparr>ce_source = ''provider_b'', ce_value = JNum 4, ce_detectedAt = 1500\<rparr>],
      mc_status = Open, mc_resolution = None, mc_resolvedAt = None\<rparr>"

definition conflictStore :: datastore where
  "conflictStore = (mappedStore Automatic)\<lparr>mappingConflicts := [conf_1]\<rparr>"

text \<open>A conflict about the name of the room, as an operator may have recorded it.\<close>

definition conf_name :: mappingConflict where
  "conf_name =
     \<lparr>mc_id = ''conf_2'', mc_entityType = ''room'', mc_entityId = ''r_1'',
      mc_fieldName = ''name'',
      mc_conflictingSources =
        [\<lparr>ce_source = ''internal'', ce_value = JStr ''Standard Room'', ce_detectedAt = 1500\<rparr>,
         \<lparr>ce_source = ''provider_b'', ce_value = JStr ''Standard Double'', ce_detectedAt = 1500\<rparr>],
      mc_status = Open, mc_resolution = None, mc_resolvedAt = None\<rparr>"

definition nameConflictStore :: datastore where
  "nameConflictStore = (mappedStore Automatic)\<lparr>mappingConflicts := [conf_name]\<rparr>"

definition internalStore :: datastore where
  "internalStore =
     (mappedStore Automatic)
       \<lparr>hotelMappings := [hm_1\<lparr>hm_source := ''internal''\<rparr>],
        roomMappings := [(rm_1 Automatic)\<lparr>rm_source := ''internal''\<rparr>]\<rparr>"

definition env0 :: "nat \<Rightarrow> parserEnv" where
  "env0 i = \<lparr>random_digits = ''k3j9x0q1z'', date_now = 0\<rparr>"

definition no_attributes :: tagAttributes where
  "no_attributes = Map.empty"

text \<open>\<^verbatim>\<open><Hotels><Hotel HotelCode="H100"></Hotel><Room id="R1" name="Room 1"></Room></Hotels>\<close>\<close>

definition feed_room_after_hotel :: "event list" where
  "feed_room_after_hotel =
     [OpenTag ''Hotels'' no_attributes,
      OpenTag ''Hotel'' [''HotelCode'' \<mapsto> ''H100''],
      CloseTag ''Hotel'' [''HotelCode'' \<mapsto> ''H100''],
      OpenTag ''Room'' [''id'' \<mapsto> ''R1'', ''name'' \<mapsto> ''Room 1''],
      CloseTag ''Room'' [''id'' \<mapsto> ''R1'', ''name'' \<mapsto> ''Room 1''],
      CloseTag ''Hotels'' no_attributes]"

text \<open>\<^verbatim>\<open><GuestRoom name="Standard"><RatePlan code="BAR" id="rate_123"><Meals>Breakfast Included</Meals></RatePlan></GuestRoom>\<close>\<close>

definition rate_plan_body :: "event list" where
  "rate_plan_body =
     [OpenTag ''Meals'' no_attributes,
      Text ''Breakfast Included'',
      CloseTag ''Meals'' no_attributes]"

definition feed_rate_plan :: "event list" where
  "feed_rate_plan =
     OpenTag ''GuestRoom'' [''name'' \<mapsto> ''Standard''] #
     OpenTag ''RatePlan'' [''code'' \<mapsto> ''BAR'', ''id'' \<mapsto> ''rate_123''] #
     rate_plan_body @
     [CloseTag ''RatePlan'' [''code'' \<mapsto> ''BAR'', ''id'' \<mapsto> ''rate_123''],
      CloseTag ''GuestRoom'' [''name'' \<mapsto> ''Standard'']]"

text \<open>\<^verbatim>\<open><Room><TypeRoom name="Ocean View Suite" RoomTypeCode="OVS_99"/><BedType>Queen</BedType><BedType>Queen</BedType></Room>\<close>\<close>

definition two_queens_body :: "event list" where
  "two_queens_body =
     [OpenTag ''TypeRoom'' [''name'' \<mapsto> ''Ocean View Suite'', ''RoomTypeCode'' \<mapsto> ''OVS_99''],
      CloseTag ''TypeRoom'' [''name'' \<mapsto> ''Ocean View Suite'', ''RoomTypeCode'' \<mapsto> ''OVS_99''],
      OpenTag ''BedType'' no_attributes,
      Text ''Queen'',
      CloseTag ''BedType'' no_attributes,
      OpenTag ''BedType'' no_attributes,
      Text ''Queen'',
      CloseTag ''BedType'' no_attributes]"

definition feed_deluxe_king :: "event list" where
  "feed_deluxe_king =
     [OpenTag ''GuestRoom''
        [''name'' \<mapsto> ''Deluxe King'', ''maxOccupancy'' \<mapsto> ''2'', ''RoomTypeCode'' \<mapsto> ''DK123''],
      OpenTag ''Bed'' [''type'' \<mapsto> ''King'', ''count'' \<mapsto> ''1''],
      CloseTag ''Bed'' [''type'' \<mapsto> ''King'', ''count'' \<mapsto> ''1''],
      OpenTag ''Amenity'' [''code'' \<mapsto> ''WIFI''],
      Text ''Free High Speed Wi-Fi'',
      CloseTag ''Amenity'' [''code'' \<mapsto> ''WIFI''],
      OpenTag ''Photo'' [''url'' \<mapsto> ''http://example.com/room.jpg''],
      CloseTag ''Photo'' [''url'' \<mapsto> ''http://example.com/room.jpg''],
      CloseTag ''GuestRoom''
        [''name'' \<mapsto> ''Deluxe King'', ''maxOccupancy'' \<mapsto> ''2'', ''RoomTypeCode'' \<mapsto> ''DK123'']]"

definition feed_two_hotels :: "event list" where
  "feed_two_hotels =
     [OpenTag ''Hotels'' no_attributes,
      OpenTag ''Hotel'' [''HotelCode'' \<mapsto> ''H100''],
      OpenTag ''GuestRoom'' [''RoomTypeCode'' \<mapsto> ''R1''],
      OpenTag ''Name'' no_attributes, Text ''Room 1'', CloseTag ''Name'' no_attributes,
      CloseTag ''GuestRoom'' [''RoomTypeCode'' \<mapsto> ''R1''],
      CloseTag ''Hotel'' [''HotelCode'' \<mapsto> ''H100''],
      OpenTag ''Hotel'' [''HotelCode'' \<mapsto> ''H200''],
      OpenTag ''GuestRoom'' [''RoomTypeCode'' \<mapsto> ''R2''],
      OpenTag ''Name'' no_attributes, Text ''Room 2'', CloseTag ''Name'' no_attributes,
      CloseTag ''GuestRoom'' [''RoomTypeCode'' \<mapsto> ''R2''],
      CloseTag ''Hotel'' [''HotelCode'' \<mapsto> ''H200''],
      CloseTag ''Hotels'' no_attributes]"

definition feed_two_rate_plans :: "event list" where
  "feed_two_rate_plans =
     [OpenTag ''GuestRoom'' [''name'' \<mapsto> ''Standard''],
      OpenTag ''RatePlan'' [''code'' \<mapsto> ''BAR'', ''id'' \<mapsto> ''rate_123''],
      OpenTag ''Total'' [''currency'' \<mapsto> ''GBP''], Text ''150.00'',
      CloseTag ''Total'' [''currency'' \<mapsto> ''GBP''],
      OpenTag ''Meals'' no_attributes, Text ''Breakfast Included'', CloseTag ''Meals'' no_attributes,
      CloseTag ''RatePlan'' [''code'' \<mapsto> ''BAR'', ''id'' \<mapsto> ''rate_123''],
      OpenTag ''RatePlan'' [''code'' \<mapsto> ''RO'', ''id'' \<mapsto> ''rate_456''],
      OpenTag ''Total'' [''currency'' \<mapsto> ''GBP''], Text ''100.00'',
      CloseTag ''Total'' [''currency'' \<mapsto> ''GBP''],
      OpenTag ''Meals'' no_attributes, Text ''Room Only'', CloseTag ''Meals'' no_attributes,
      CloseTag ''RatePlan'' [''code'' \<mapsto> ''RO'', ''id'' \<mapsto> ''rate_456''],
      CloseTag ''GuestRoom'' [''name'' \<mapsto> ''Standard'']]"

lemmas parser_defs = parse_def initialState_def opentag_def opentag_in_room_def closetag_def
  text_event_def closetag_room_fields_def closetag_rate_fields_def room_of_tag_def newRate_def
  is_hotel_tag_def is_room_tag_def is_rate_tag_def js_or_def str_or_def push_def Let_def

lemmas string_defs = asciiBuiltins_def ascii_toLowerCase_def toLowerChar_def
  ascii_toUpperCase_def toUpperChar_def ascii_trim_def is_space_def normalizeBedType_def
  char_of_def bit_Suc_0_iff

lemmas example_defs = mappedStore_def hm_1_def rm_1_def r_1_def env_at_def noOptions_def
  standardRoom_def conf_1_def conflictStore_def internalStore_def emptyStore_def

lemmas mapRoom_defs = mapRoom_def mapRoom_mapping_def same_mapping_key_def
  detectAndRecordConflicts_def upsertConflict_def is_open_conflict_def upsertRoomEnrichment_def
  calculateQualityScore_def supplied_confidence_def supplied_mappingType_def
  supplied_isPrimary_def Let_def

section \<open>Properties of the quality score\<close>

lemma calculateQualityScore_range:
  "0 \<le> calculateQualityScore room \<and> calculateQualityScore room \<le> 100"
  by (simp add: calculateQualityScore_def Let_def)

lemma calculateQualityScore_name_photos:
  assumes "name room \<noteq> []" and "nonempty (photos room)"
    and "\<not> truthy_num (max_occupancy room)" and "\<not> nonempty (beds room)"
    and "\<not> nonempty (amenities room)" and "\<not> has_class_or_view (attributes room)"
    and "\<not> nonempty (rates room)"
  shows "calculateQualityScore room = 30"
  using assms by (simp add: calculateQualityScore_def Let_def)

lemma calculateQualityScore_all:
  assumes "name room \<noteq> []" and "truthy_num (max_occupancy room)"
    and "nonempty (beds room)" and "nonempty (photos room)"
    and "nonempty (amenities room)" and "has_class_or_view (attributes room)"
    and "nonempty (rates room)"
  shows "calculateQualityScore room = 100"
  using assms by (simp add: calculateQualityScore_def Let_def)

text \<open>
  C8, as the code has it. The quality score of every room record is an integer between
  0 and 100. The scorer does not test that a field is present, it tests that the field
  is truthy: a non-empty name, a \<^verbatim>\<open>max_occupancy\<close> that is a number other than zero and
  \<^verbatim>\<open>NaN\<close>, a non-empty list, a non-empty \<^verbatim>\<open>class\<close> or \<^verbatim>\<open>view\<close>. A room in which the name
  and the photo list pass that test and the other five fields fail it scores exactly
  30, and a room in which all seven fields pass it scores exactly 100.
\<close>

theorem C8_quality_score:
  "0 \<le> calculateQualityScore room \<and> calculateQualityScore room \<le> 100 \<and>
   (name room \<noteq> [] \<and> nonempty (photos room) \<and> \<not> truthy_num (max_occupancy room) \<and>
    \<not> nonempty (beds room) \<and> \<not> nonempty (amenities room) \<and>
    \<not> has_class_or_view (attributes room) \<and> \<not> nonempty (rates room)
      \<longrightarrow> calculateQualityScore room = 30) \<and>
   (name room \<noteq> [] \<and> truthy_num (max_occupancy room) \<and> nonempty (beds room) \<and>
    nonempty (photos room) \<and> nonempty (amenities room) \<and>
    has_class_or_view (attributes room) \<and> nonempty (rates room)
      \<longrightarrow> calculateQualityScore room = 100)"
  using calculateQualityScore_range [of room] calculateQualityScore_name_photos [of room]
    calculateQualityScore_all [of room]
  by blast

theorem C8_quality_score_witness:
  "calculateQualityScore
     \<lparr>name = ''Deluxe Room'', max_occupancy = None, beds = None,
      photos = Some [\<lparr>url = ''http://example.com/1.jpg''\<rparr>], amenities = None,
      attributes = None, rates = None\<rparr> = 30 \<and>
   calculateQualityScore
     \<lparr>name = ''Deluxe King'', max_occupancy = Some (Num 2),
      beds = Some [\<lparr>bed_type = King, bed_count = Num 1\<rparr>],
      photos = Some [\<lparr>url = ''http://example.com/room.jpg''\<rparr>],
      amenities = Some [\<lparr>amenity_type = Wifi, amenity_description = ''Free Wi-Fi''\<rparr>],
      attributes = Some \<lparr>attr_class = Some ''Deluxe'', attr_view = None\<rparr>,
      rates = Some [newRate \<lparr>random_digits = ''k3j9x0q1z'', date_now = 0\<rparr> Map.empty]\<rparr> = 100"
  using C8_quality_score
    [of "\<lparr>name = ''Deluxe Room'', max_occupancy = None, beds = None,
      photos = Some [\<lparr>url = ''http://example.com/1.jpg''\<rparr>], amenities = None,
      attributes = None, rates = None\<rparr>"]
    C8_quality_score
    [of "\<lparr>name = ''Deluxe King'', max_occupancy = Some (Num 2),
      beds = Some [\<lparr>bed_type = King, bed_count = Num 1\<rparr>],
      photos = Some [\<lparr>url = ''http://example.com/room.jpg''\<rparr>],
      amenities = Some [\<lparr>amenity_type = Wifi, amenity_description = ''Free Wi-Fi''\<rparr>],
      attributes = Some \<lparr>attr_class = Some ''Deluxe'', attr_view = None\<rparr>,
      rates = Some [newRate \<lparr>random_digits = ''k3j9x0q1z'', date_now = 0\<rparr> Map.empty]\<rparr>"]
  by simp

text \<open>
  C8, as the specification words it, fails: in the room below all seven contributing
  fields are present, the name, a \<^verbatim>\<open>max_occupancy\<close>, a bed, a photo, an amenity, a class
  and a rate, and the score is 90, because the \<^verbatim>\<open>max_occupancy\<close> that is present is 0.
\<close>

theorem C8_zero_occupancy_counterexample:
  "calculateQualityScore
     \<lparr>name = ''Deluxe King'', max_occupancy = Some (Num 0),
      beds = Some [\<lparr>bed_type = King, bed_count = Num 1\<rparr>],
      photos = Some [\<lparr>url = ''http://example.com/room.jpg''\<rparr>],
      amenities = Some [\<lparr>amenity_type = Wifi, amenity_description = ''Free Wi-Fi''\<rparr>],
      attributes = Some \<lparr>attr_class = Some ''Deluxe'', attr_view = None\<rparr>,
      rates = Some [newRate \<lparr>random_digits = ''k3j9x0q1z'', date_now = 0\<rparr> Map.empty]\<rparr> = 90"
  by (simp add: calculateQualityScore_def Let_def)

section \<open>Properties of mapRoom\<close>

lemma find_distinct_key:
  assumes "distinct (map k xs)" and "x \<in> set xs"
  shows "find (\<lambda>y. k y = k x) xs = Some x"
  using assms
proof (induction xs)
  case Nil then show ?case by simp
next
  case (Cons a xs)
  then show ?case by (cases "a = x") (auto simp: image_iff)
qed

lemma same_mapping_key_iff:
  "same_mapping_key (rm_source m) (rm_sourceId m) (rm_hotelMappingId m) = (\<lambda>y. mapping_key y = mapping_key m)"
  by (auto simp: same_mapping_key_def mapping_key_def fun_eq_iff)

lemma roomMappings_detect [simp]:
  "roomMappings (detectAndRecordConflicts env r source roomData db) = roomMappings db"
  by (simp add: detectAndRecordConflicts_def upsertConflict_def Let_def
      split: option.splits jsnum.splits)

lemma roomMappings_enrich [simp]:
  "roomMappings (upsertRoomEnrichment now i rid source f c q db) = roomMappings db"
  by (simp add: upsertRoomEnrichment_def split: option.splits)

lemma roomMappings_mapRoom:
  assumes "find (\<lambda>h. hm_source h = source \<and> hm_sourceId h = hotelSourceId) (hotelMappings db) = Some hm"
  shows "roomMappings (mapRoom env hotelSourceId roomSourceId source roomData options db) =
     roomMappings (snd (snd (mapRoom_mapping env hm roomSourceId source roomData
        (supplied_confidence options) (supplied_mappingType options)
        (supplied_isPrimary options) (calculateQualityScore roomData) db)))"
  using assms
  by (simp add: mapRoom_def Let_def split: prod.splits option.splits)

lemma hotelMappings_detect [simp]:
  "hotelMappings (detectAndRecordConflicts env r source roomData db) = hotelMappings db"
  by (simp add: detectAndRecordConflicts_def upsertConflict_def Let_def
      split: option.splits jsnum.splits)

lemma hotelMappings_enrich [simp]:
  "hotelMappings (upsertRoomEnrichment now i rid source f c q db) = hotelMappings db"
  by (simp add: upsertRoomEnrichment_def split: option.splits)

lemma hotelMappings_mapRoom_mapping:
  "mapRoom_mapping env hm roomSourceId source roomData c t p q db = (rid, cr, db1) \<Longrightarrow>
     hotelMappings db1 = hotelMappings db"
  by (auto simp: mapRoom_mapping_def Let_def split: option.splits)

lemma hotelMappings_mapRoom [simp]:
  "hotelMappings (mapRoom env hotelSourceId roomSourceId source roomData options db) = hotelMappings db"
proof (cases "find (\<lambda>h. hm_source h = source \<and> hm_sourceId h = hotelSourceId) (hotelMappings db)")
  case None
  then show ?thesis by (simp add: mapRoom_def)
next
  case (Some hm)
  obtain rid cr db1 where mm: "mapRoom_mapping env hm roomSourceId source roomData
        (supplied_confidence options) (supplied_mappingType options)
        (supplied_isPrimary options) (calculateQualityScore roomData) db = (rid, cr, db1)"
    by (metis prod_cases3)
  have "hotelMappings db1 = hotelMappings db"
    using hotelMappings_mapRoom_mapping [OF mm] .
  then show ?thesis
    by (simp add: mapRoom_def Some mm Let_def split: option.splits)
qed

lemma find_filter_single:
  assumes "length (filter P xs) \<le> 1" and "find P xs = Some x"
  shows "filter P xs = [x]"
  using assms
proof (induction xs)
  case Nil then show ?case by simp
next
  case (Cons a xs)
  then show ?case by (auto split: if_splits)
qed

lemma find_None_filter: "find P xs = None \<Longrightarrow> filter P xs = []"
  by (induction xs) (auto split: if_splits)

lemma filter_map_preserving:
  assumes "\<And>x. P (f x) = P x"
  shows "filter P (map f xs) = map f (filter P xs)"
  using assms by (induction xs) auto

lemma mapRoom_single_row:
  assumes hm: "find (\<lambda>h. hm_source h = source \<and> hm_sourceId h = hotelSourceId) (hotelMappings db) = Some hm"
    and atmost: "length (filter (same_mapping_key source roomSourceId (hm_id hm)) (roomMappings db)) \<le> 1"
  shows "\<exists>x. filter (same_mapping_key source roomSourceId (hm_id hm))
            (roomMappings (mapRoom env hotelSourceId roomSourceId source roomData options db)) = [x] \<and>
          rm_qualityScore x = calculateQualityScore roomData"
proof (cases "find (same_mapping_key source roomSourceId (hm_id hm)) (roomMappings db)")
  case None
  then show ?thesis
    by (simp add: roomMappings_mapRoom [OF hm] mapRoom_mapping_def find_None_filter Let_def
        same_mapping_key_def split: option.splits)
next
  case (Some ex)
  let ?K = "same_mapping_key source roomSourceId (hm_id hm)"
  have single: "filter ?K (roomMappings db) = [ex]"
    using find_filter_single [OF atmost Some] .
  have pres: "filter ?K (map f (roomMappings db)) = map f (filter ?K (roomMappings db))"
    if "\<And>x. ?K (f x) = ?K x" for f
    using that by (rule filter_map_preserving)
  show ?thesis
    by (simp add: roomMappings_mapRoom [OF hm] mapRoom_mapping_def Some
        pres same_mapping_key_def single)
qed

lemma mapRoom_no_hotelMapping:
  "find (\<lambda>h. hm_source h = source \<and> hm_sourceId h = hotelSourceId) (hotelMappings db) = None \<Longrightarrow>
     mapRoom env hotelSourceId roomSourceId source roomData options db = db"
  by (simp add: mapRoom_def)

text \<open>
  C1. In a datastore whose room mappings have distinct keys, take any existing
  RoomMapping \<open>m\<close> and a \<^verbatim>\<open>mapRoom\<close> call for its key (its source, its source id, and a
  hotel source id that resolves to its hotel mapping). The call adds no row and
  removes none. If \<open>m\<close> is verified, the call leaves its confidence and mappingType as
  they are and sets its sourceData, lastSyncedAt and qualityScore; if \<open>m\<close> is not
  verified, the call also overwrites its confidence with the \<^verbatim>\<open>confidence\<close> of the
  options, or 0.8 when the options give none, and its mappingType with the
  \<^verbatim>\<open>mappingType\<close> of the options, or \<^verbatim>\<open>automatic\<close> when the options give none.
\<close>

theorem C1_verified_mapping_protected:
  assumes hm: "find (\<lambda>h. hm_source h = source \<and> hm_sourceId h = hotelSourceId) (hotelMappings db) = Some hm"
    and i: "i < length (roomMappings db)" and m: "roomMappings db ! i = m"
    and key: "rm_source m = source" "rm_sourceId m = roomSourceId" "rm_hotelMappingId m = hm_id hm"
    and uniq: "distinct (map mapping_key (roomMappings db))"
  shows "length (roomMappings (mapRoom env hotelSourceId roomSourceId source roomData options db)) =
           length (roomMappings db) \<and>
         roomMappings (mapRoom env hotelSourceId roomSourceId source roomData options db) ! i =
           (if rm_mappingType m = Verified
            then m\<lparr>rm_sourceData := roomData, rm_lastSyncedAt := t_synced env,
                   rm_qualityScore := calculateQualityScore roomData\<rparr>
            else m\<lparr>rm_sourceData := roomData, rm_lastSyncedAt := t_synced env,
                   rm_qualityScore := calculateQualityScore roomData,
                   rm_confidence :=
                     (case opt_confidence options of None \<Rightarrow> 8 / 10 | Some c \<Rightarrow> c),
                   rm_mappingType :=
                     (case opt_mappingType options of None \<Rightarrow> Automatic | Some t \<Rightarrow> t)\<rparr>)"
proof -
  have mem: "m \<in> set (roomMappings db)"
    using i m nth_mem by blast
  have found: "find (same_mapping_key source roomSourceId (hm_id hm)) (roomMappings db) = Some m"
    using find_distinct_key [OF uniq mem] key same_mapping_key_iff [of m] by simp
  show ?thesis
    using i m
    by (simp add: roomMappings_mapRoom [OF hm] mapRoom_mapping_def found
        supplied_confidence_def supplied_mappingType_def)
qed

theorem C1_verified_mapping_protected_witness:
  "roomMappings (mapRoom (env_at 2000) ''h_src_1'' ''r_src_1'' ''provider_b'' (standardRoom 4)
       \<lparr>opt_confidence = Some (9 / 10), opt_mappingType = Some Manual, opt_isPrimary = Some True\<rparr>
       (mappedStore Verified)) =
     [(rm_1 Verified)\<lparr>rm_sourceData := standardRoom 4, rm_lastSyncedAt := 2000,
        rm_qualityScore := 20\<rparr>] \<and>
   roomMappings (mapRoom (env_at 2000) ''h_src_1'' ''r_src_1'' ''provider_b'' (standardRoom 4)
       \<lparr>opt_confidence = Some (9 / 10), opt_mappingType = Some Manual, opt_isPrimary = Some True\<rparr>
       (mappedStore Automatic)) =
     [(rm_1 Automatic)\<lparr>rm_sourceData := standardRoom 4, rm_lastSyncedAt := 2000,
        rm_qualityScore := 20, rm_confidence := 9 / 10, rm_mappingType := Manual\<rparr>] \<and>
   roomMappings (mapRoom (env_at 2000) ''h_src_1'' ''r_src_1'' ''provider_b'' (standardRoom 4)
       noOptions (mappedStore Manual)) =
     [(rm_1 Manual)\<lparr>rm_sourceData := standardRoom 4, rm_lastSyncedAt := 2000,
        rm_qualityScore := 20, rm_confidence := 8 / 10, rm_mappingType := Automatic\<rparr>]"
proof -
  let ?supplied =
    "\<lparr>opt_confidence = Some (9 / 10), opt_mappingType = Some Manual, opt_isPrimary = Some True\<rparr>"
  have l: "xs = [x]" if "length xs = Suc 0" and "xs ! 0 = x" for xs :: "roomMapping list" and x
    using that by (cases xs) simp_all
  have a: "roomMappings (mapRoom (env_at 2000) ''h_src_1'' ''r_src_1'' ''provider_b'' (standardRoom 4)
       ?supplied (mappedStore Verified)) =
     [(rm_1 Verified)\<lparr>rm_sourceData := standardRoom 4, rm_lastSyncedAt := 2000,
        rm_qualityScore := 20\<rparr>]"
    using C1_verified_mapping_protected
      [where source = "''provider_b''" and hotelSourceId = "''h_src_1''"
        and db = "mappedStore Verified" and hm = hm_1 and i = 0 and m = "rm_1 Verified"
        and roomSourceId = "''r_src_1''" and env = "env_at 2000" and roomData = "standardRoom 4"
        and options = ?supplied]
    by (intro l) (simp_all add: mappedStore_def hm_1_def rm_1_def env_at_def standardRoom_def
        calculateQualityScore_def)
  have b: "roomMappings (mapRoom (env_at 2000) ''h_src_1'' ''r_src_1'' ''provider_b'' (standardRoom 4)
       ?supplied (mappedStore Automatic)) =
     [(rm_1 Automatic)\<lparr>rm_sourceData := standardRoom 4, rm_lastSyncedAt := 2000,
        rm_qualityScore := 20, rm_confidence := 9 / 10, rm_mappingType := Manual\<rparr>]"
    using C1_verified_mapping_protected
      [where source = "''provider_b''" and hotelSourceId = "''h_src_1''"
        and db = "mappedStore Automatic" and hm = hm_1 and i = 0 and m = "rm_1 Automatic"
        and roomSourceId = "''r_src_1''" and env = "env_at 2000" and roomData = "standardRoom 4"
        and options = ?supplied]
    by (intro l) (simp_all add: mappedStore_def hm_1_def rm_1_def env_at_def standardRoom_def
        calculateQualityScore_def)
  have c: "roomMappings (mapRoom (env_at 2000) ''h_src_1'' ''r_src_1'' ''provider_b'' (standardRoom 4)
       noOptions (mappedStore Manual)) =
     [(rm_1 Manual)\<lparr>rm_sourceData := standardRoom 4, rm_lastSyncedAt := 2000,
        rm_qualityScore := 20, rm_confidence := 8 / 10, rm_mappingType := Automatic\<rparr>]"
    using C1_verified_mapping_protected
      [where source = "''provider_b''" and hotelSourceId = "''h_src_1''"
        and db = "mappedStore Manual" and hm = hm_1 and i = 0 and m = "rm_1 Manual"
        and roomSourceId = "''r_src_1''" and env = "env_at 2000" and roomData = "standardRoom 4"
        and options = noOptions]
    by (intro l) (simp_all add: mappedStore_def hm_1_def rm_1_def env_at_def standardRoom_def
        calculateQualityScore_def noOptions_def)
  from a b c show ?thesis by blast
qed

text \<open>
  C4, as the code has it. Take any datastore and two \<^verbatim>\<open>mapRoom\<close> calls in sequence with
  the same hotel source id, room source id, source and room. If the datastore holds
  no hotel mapping for the source and hotel source id, neither call writes anything.
  If it holds one, and at most one RoomMapping row has the key, then after the second
  call exactly one row has the key, with the qualityScore the first call left.
\<close>

theorem C4_mapRoom_twice:
  "let db1 = mapRoom env1 hotelSourceId roomSourceId source roomData options1 db;
       db2 = mapRoom env2 hotelSourceId roomSourceId source roomData options2 db1
   in (find (\<lambda>h. hm_source h = source \<and> hm_sourceId h = hotelSourceId) (hotelMappings db) = None
         \<longrightarrow> db2 = db) \<and>
      (\<forall>hm. find (\<lambda>h. hm_source h = source \<and> hm_sourceId h = hotelSourceId) (hotelMappings db) = Some hm \<and>
            length (filter (same_mapping_key source roomSourceId (hm_id hm)) (roomMappings db)) \<le> 1
         \<longrightarrow> length (filter (same_mapping_key source roomSourceId (hm_id hm)) (roomMappings db2)) = 1 \<and>
             map rm_qualityScore (filter (same_mapping_key source roomSourceId (hm_id hm)) (roomMappings db2)) =
             map rm_qualityScore (filter (same_mapping_key source roomSourceId (hm_id hm)) (roomMappings db1)))"
proof -
  define db1 where "db1 = mapRoom env1 hotelSourceId roomSourceId source roomData options1 db"
  define db2 where "db2 = mapRoom env2 hotelSourceId roomSourceId source roomData options2 db1"
  have none: "db2 = db"
    if "find (\<lambda>h. hm_source h = source \<and> hm_sourceId h = hotelSourceId) (hotelMappings db) = None"
    using that by (simp add: db1_def db2_def mapRoom_no_hotelMapping)
  have some: "length (filter (same_mapping_key source roomSourceId (hm_id hm)) (roomMappings db2)) = 1 \<and>
      map rm_qualityScore (filter (same_mapping_key source roomSourceId (hm_id hm)) (roomMappings db2)) =
      map rm_qualityScore (filter (same_mapping_key source roomSourceId (hm_id hm)) (roomMappings db1))"
    if a: "find (\<lambda>h. hm_source h = source \<and> hm_sourceId h = hotelSourceId) (hotelMappings db) = Some hm"
      and b: "length (filter (same_mapping_key source roomSourceId (hm_id hm)) (roomMappings db)) \<le> 1"
    for hm
  proof -
    let ?K = "same_mapping_key source roomSourceId (hm_id hm)"
    obtain x where x: "filter ?K (roomMappings db1) = [x]"
        "rm_qualityScore x = calculateQualityScore roomData"
      using mapRoom_single_row [OF a b, of env1 roomData options1]
      by (auto simp: db1_def)
    have hm1: "find (\<lambda>h. hm_source h = source \<and> hm_sourceId h = hotelSourceId) (hotelMappings db1) = Some hm"
      using a by (simp add: db1_def)
    have le1: "length (filter ?K (roomMappings db1)) \<le> 1"
      using x by simp
    obtain y where y: "filter ?K (roomMappings db2) = [y]"
        "rm_qualityScore y = calculateQualityScore roomData"
      using mapRoom_single_row [OF hm1 le1, of env2 roomData options2]
      by (auto simp: db2_def)
    show ?thesis using x y by simp
  qed
  show ?thesis
    unfolding Let_def db1_def [symmetric] db2_def [symmetric]
    using none some by blast
qed

theorem C4_mapRoom_twice_witness:
  "length (filter (same_mapping_key ''provider_b'' ''r_src_1'' ''hm_1'')
       (roomMappings
          (mapRoom (env_at 3000) ''h_src_1'' ''r_src_1'' ''provider_b'' (standardRoom 4) noOptions
             (mapRoom (env_at 2000) ''h_src_1'' ''r_src_1'' ''provider_b'' (standardRoom 4)
                noOptions (mappedStore Automatic))))) = 1"
  using C4_mapRoom_twice
      [of "env_at 2000" "''h_src_1''" "''r_src_1''" "''provider_b''" "standardRoom 4" noOptions
        "mappedStore Automatic" "env_at 3000" noOptions]
  by (simp add: Let_def mappedStore_def hm_1_def rm_1_def same_mapping_key_def)

text \<open>
  The claim as stated fails in a datastore without the parent hotel mapping: both
  calls skip the room, and no row has the key.
\<close>

theorem C4_no_hotel_mapping_counterexample:
  "\<not> (\<exists>hotelMappingId.
        length (filter (same_mapping_key ''provider_b'' ''r_src_1'' hotelMappingId)
          (roomMappings
             (mapRoom (env_at 3000) ''h_src_1'' ''r_src_1'' ''provider_b'' (standardRoom 4)
                noOptions
                (mapRoom (env_at 2000) ''h_src_1'' ''r_src_1'' ''provider_b'' (standardRoom 4)
                   noOptions emptyStore)))) = 1)"
  by (simp add: mapRoom_def emptyStore_def)

lemma mappingConflicts_enrich [simp]:
  "mappingConflicts (upsertRoomEnrichment now i rid source f c q db) = mappingConflicts db"
  by (simp add: upsertRoomEnrichment_def split: option.splits)

lemma mappingConflicts_mapRoom_mapping:
  "mapRoom_mapping env hm roomSourceId source roomData c t p q db = (rid, cr, db1) \<Longrightarrow>
     mappingConflicts db1 = mappingConflicts db"
  by (auto simp: mapRoom_mapping_def Let_def split: option.splits)

lemma upsertConflict_cong:
  "mappingConflicts db1 = mappingConflicts db \<Longrightarrow>
   mappingConflicts (upsertConflict env et ei fn source nv cv db1) =
   mappingConflicts (upsertConflict env et ei fn source nv cv db)"
  by (simp add: upsertConflict_def Let_def split: option.splits)

lemma detect_cong:
  "mappingConflicts db1 = mappingConflicts db \<Longrightarrow>
   mappingConflicts (detectAndRecordConflicts env r source roomData db1) =
   mappingConflicts (detectAndRecordConflicts env r source roomData db)"
  using upsertConflict_cong [of db1 db env "''room''" "r_id r" "''maxOccupancy''" source]
  by (simp add: detectAndRecordConflicts_def split: option.splits jsnum.splits)

lemma mappingConflicts_mapRoom:
  "mappingConflicts (mapRoom env hotelSourceId roomSourceId source roomData options db) =
     (case canonical_room env hotelSourceId roomSourceId source roomData options db of
        None \<Rightarrow> mappingConflicts db
      | Some r \<Rightarrow> mappingConflicts (detectAndRecordConflicts env r source roomData db))"
proof (cases "find (\<lambda>h. hm_source h = source \<and> hm_sourceId h = hotelSourceId) (hotelMappings db)")
  case None
  then show ?thesis by (simp add: mapRoom_def canonical_room_def)
next
  case (Some hm)
  obtain rid cr db1 where mm: "mapRoom_mapping env hm roomSourceId source roomData
        (supplied_confidence options) (supplied_mappingType options)
        (supplied_isPrimary options) (calculateQualityScore roomData) db = (rid, cr, db1)"
    by (metis prod_cases3)
  have same: "mappingConflicts db1 = mappingConflicts db"
    using mappingConflicts_mapRoom_mapping [OF mm] .
  have cr: "canonical_room env hotelSourceId roomSourceId source roomData options db = cr"
    by (simp add: canonical_room_def Some mm)
  have "mappingConflicts (mapRoom env hotelSourceId roomSourceId source roomData options db) =
      (case cr of None \<Rightarrow> mappingConflicts db1
       | Some r \<Rightarrow> mappingConflicts (detectAndRecordConflicts env r source roomData db1))"
    using mm
    by (simp add: mapRoom_def Some Let_def split: option.splits)
  then show ?thesis
    by (simp add: cr same detect_cong [OF same] split: option.splits)
qed

lemma detect_changes:
  assumes "mappingConflicts (detectAndRecordConflicts env r source roomData db) \<noteq> mappingConflicts db"
  shows "\<exists>internal incoming. r_maxOccupancy r = Some internal \<and>
           max_occupancy roomData = Some (Num incoming) \<and>
           internal \<noteq> 0 \<and> incoming \<noteq> 0 \<and> internal \<noteq> incoming"
  using assms
  by (auto simp: detectAndRecordConflicts_def split: option.splits jsnum.splits if_splits)

text \<open>
  C9. If a \<^verbatim>\<open>mapRoom\<close> call creates or modifies any conflict record, then the canonical
  room of the call has a \<^verbatim>\<open>maxOccupancy\<close>, the incoming room has a \<^verbatim>\<open>max_occupancy\<close>, both
  are non-zero numbers, and they differ. So when either side is missing or zero the
  conflict table is left as it was.
\<close>

theorem C9_conflict_only_on_disagreement:
  assumes "mappingConflicts (mapRoom env hotelSourceId roomSourceId source roomData options db) \<noteq>
             mappingConflicts db"
  shows "\<exists>r internal incoming.
           canonical_room env hotelSourceId roomSourceId source roomData options db = Some r \<and>
           r_maxOccupancy r = Some internal \<and> max_occupancy roomData = Some (Num incoming) \<and>
           internal \<noteq> 0 \<and> incoming \<noteq> 0 \<and> internal \<noteq> incoming"
proof (cases "canonical_room env hotelSourceId roomSourceId source roomData options db")
  case None
  then show ?thesis using assms by (simp add: mappingConflicts_mapRoom)
next
  case (Some r)
  then have "mappingConflicts (detectAndRecordConflicts env r source roomData db) \<noteq> mappingConflicts db"
    using assms by (simp add: mappingConflicts_mapRoom)
  from detect_changes [OF this] Some show ?thesis by blast
qed

lemma mapRoom_example_first:
  "mapRoom (env_at 2000) ''h_src_1'' ''r_src_1'' ''provider_b'' (standardRoom 4) noOptions
     (mappedStore Automatic) =
   \<lparr>hotelMappings = [hm_1],
    roomMappings =
      [(rm_1 Automatic)\<lparr>rm_sourceData := standardRoom 4, rm_lastSyncedAt := 2000,
         rm_qualityScore := 20, rm_confidence := 8 / 10\<rparr>],
    rooms = [r_1],
    roomContentEnrichments = [],
    mappingConflicts =
      [\<lparr>mc_id = ''conf_new'', mc_entityType = ''room'', mc_entityId = ''r_1'',
        mc_fieldName = ''maxOccupancy'',
        mc_conflictingSources =
          [\<lparr>ce_source = ''internal'', ce_value = JNum 2, ce_detectedAt = 2000\<rparr>,
           \<lparr>ce_source = ''provider_b'', ce_value = JNum 4, ce_detectedAt = 2000\<rparr>],
        mc_status = Open, mc_resolution = None, mc_resolvedAt = None\<rparr>]\<rparr>"
  by (simp add: example_defs mapRoom_defs)



theorem C9_conflict_only_on_disagreement_witness:
  "\<exists>r internal incoming.
     canonical_room (env_at 2000) ''h_src_1'' ''r_src_1'' ''provider_b'' (standardRoom 4)
       noOptions (mappedStore Automatic) = Some r \<and>
     r_maxOccupancy r = Some internal \<and> max_occupancy (standardRoom 4) = Some (Num incoming) \<and>
     internal \<noteq> 0 \<and> incoming \<noteq> 0 \<and> internal \<noteq> incoming"
proof -
  have "mappingConflicts (mapRoom (env_at 2000) ''h_src_1'' ''r_src_1'' ''provider_b''
      (standardRoom 4) noOptions (mappedStore Automatic)) \<noteq> mappingConflicts (mappedStore Automatic)"
    by (simp add: mapRoom_example_first) (simp add: mappedStore_def)
  then show ?thesis by (rule C9_conflict_only_on_disagreement)
qed

section \<open>Properties of the conflict merge\<close>





















lemma open_unique_map_resolving:
  assumes "\<And>c. conflict_key (f c) = conflict_key c"
    and "\<And>c. mc_status (f c) = Open \<Longrightarrow> mc_status c = Open"
    and "open_conflicts_unique cs"
  shows "open_conflicts_unique (map f cs)"
  using assms(3)
proof (induction cs)
  case Nil
  then show ?case by (simp add: open_conflicts_unique_def)
next
  case (Cons c cs)
  have sub: "conflict_key ` set (filter (\<lambda>c. mc_status c = Open) (map f cs)) \<subseteq>
      conflict_key ` set (filter (\<lambda>c. mc_status c = Open) cs)"
    using assms(1,2) by (auto simp: image_iff)
  from Cons have tl: "open_conflicts_unique cs"
    by (simp add: open_conflicts_unique_def split: if_splits)
  show ?case
  proof (cases "mc_status (f c) = Open")
    case True
    then have "mc_status c = Open" by (rule assms(2))
    then have "conflict_key c \<notin> conflict_key ` set (filter (\<lambda>c. mc_status c = Open) cs)"
      using Cons.prems by (simp add: open_conflicts_unique_def)
    then show ?thesis
      using True sub Cons.IH [OF tl] assms(1) by (auto simp: open_conflicts_unique_def)
  next
    case False
    then show ?thesis
      using Cons.IH [OF tl] by (simp add: open_conflicts_unique_def)
  qed
qed

lemma resolveConflict_open_conflicts_unique:
  assumes "open_conflicts_unique (mappingConflicts db)"
  shows "open_conflicts_unique
           (mappingConflicts (snd (resolveConflict now conflictId strategy sourceToApply db)))"
proof (cases "resolveConflict_body now conflictId strategy sourceToApply db")
  case (Inl e)
  then show ?thesis
    using assms by (simp add: resolveConflict_def transaction_def)
next
  case (Inr res)
  obtain c db' where res: "res = (c, db')" by (cases res)
  have "\<exists>f. mappingConflicts db' = map f (mappingConflicts db) \<and>
      (\<forall>c. conflict_key (f c) = conflict_key c) \<and>
      (\<forall>c. mc_status (f c) = Open \<longrightarrow> mc_status c = Open)"
    using Inr res
    by (intro exI [of _ "\<lambda>c. if mc_id c = conflictId then mark_resolved now strategy c else c"])
      (auto simp: resolveConflict_body_def room_update_field_def Let_def mark_resolved_def
        conflict_key_def split: option.splits if_splits sum.splits)
  then obtain f where f: "mappingConflicts db' = map f (mappingConflicts db)"
      "\<And>c. conflict_key (f c) = conflict_key c"
      "\<And>c. mc_status (f c) = Open \<Longrightarrow> mc_status c = Open"
    by blast
  show ?thesis
    using open_unique_map_resolving [of f, OF f(2) f(3) assms] Inr res f(1)
    by (simp add: resolveConflict_def transaction_def)
qed




text \<open>
  A second call whose value agrees with the canonical value records nothing: the
  entry of the source keeps the value of the first call.
\<close>

lemma agreeing_value_keeps_entry:
  "mappingConflicts
     (mapRoom (env_at 3000) ''h_src_1'' ''r_src_1'' ''provider_b'' (standardRoom 2) noOptions
        (mapRoom (env_at 2000) ''h_src_1'' ''r_src_1'' ''provider_b'' (standardRoom 4) noOptions
           (mappedStore Automatic))) =
   [\<lparr>mc_id = ''conf_new'', mc_entityType = ''room'', mc_entityId = ''r_1'',
     mc_fieldName = ''maxOccupancy'',
     mc_conflictingSources =
       [\<lparr>ce_source = ''internal'', ce_value = JNum 2, ce_detectedAt = 2000\<rparr>,
        \<lparr>ce_source = ''provider_b'', ce_value = JNum 4, ce_detectedAt = 2000\<rparr>],
     mc_status = Open, mc_resolution = None, mc_resolvedAt = None\<rparr>]"
  by (simp add: example_defs mapRoom_defs)

section \<open>Properties of resolveConflict\<close>

text \<open>
  C10. On an existing conflict, \<^verbatim>\<open>resolveConflict(conflictId, 'apply_source')\<close> with no
  \<^verbatim>\<open>sourceToApply\<close> does not fail: it marks the conflict resolved with resolution
  \<^verbatim>\<open>apply_source\<close> and the time of the call, and changes nothing else, as
  \<^verbatim>\<open>keep_internal\<close> does but for the recorded resolution; no room is modified.
\<close>

theorem C10_apply_source_without_source:
  assumes "find (\<lambda>c. mc_id c = conflictId) (mappingConflicts db) = Some conflict"
  shows "resolveConflict now conflictId Apply_source None db =
           (Inr (mark_resolved now Apply_source conflict),
            db\<lparr>mappingConflicts :=
                 map (\<lambda>c. if mc_id c = conflictId then mark_resolved now Apply_source c else c)
                   (mappingConflicts db)\<rparr>) \<and>
         resolveConflict now conflictId Keep_internal sourceToApply db =
           (Inr (mark_resolved now Keep_internal conflict),
            db\<lparr>mappingConflicts :=
                 map (\<lambda>c. if mc_id c = conflictId then mark_resolved now Keep_internal c else c)
                   (mappingConflicts db)\<rparr>) \<and>
         rooms (snd (resolveConflict now conflictId Apply_source None db)) = rooms db"
  using assms
  by (simp add: resolveConflict_def resolveConflict_body_def transaction_def mark_resolved_def
      split: option.splits)

theorem C10_apply_source_without_source_witness:
  "resolveConflict 5000 ''conf_1'' Apply_source None conflictStore =
     (Inr (mark_resolved 5000 Apply_source conf_1),
      conflictStore\<lparr>mappingConflicts := [mark_resolved 5000 Apply_source conf_1]\<rparr>)"
proof -
  have "find (\<lambda>c. mc_id c = ''conf_1'') (mappingConflicts conflictStore) = Some conf_1"
    by (simp add: conflictStore_def conf_1_def)
  from C10_apply_source_without_source [OF this, of 5000] show ?thesis
    by (simp add: conflictStore_def conf_1_def)
qed

lemma find_map_id:
  assumes "find (\<lambda>x. k x = i) xs = Some x" and "\<And>y. k (f y) = k y"
  shows "find (\<lambda>x. k x = i) (map (\<lambda>y. if k y = i then f y else y) xs) = Some (f x)"
  using assms
proof (induction xs)
  case Nil then show ?case by simp
next
  case (Cons a xs)
  then show ?case by (auto split: if_splits)
qed

lemma room_data_cases:
  assumes "room_data fieldName v = Some upd"
  shows "(fieldName = ''id'' \<and> (\<exists>s. v = JStr s \<and> upd = (\<lambda>r. r\<lparr>r_id := s\<rparr>))) \<or>
         (fieldName = ''hotelId'' \<and> (\<exists>s. v = JStr s \<and> upd = (\<lambda>r. r\<lparr>r_hotelId := s\<rparr>))) \<or>
         (fieldName = ''name'' \<and> (\<exists>s. v = JStr s \<and> upd = (\<lambda>r. r\<lparr>r_name := s\<rparr>))) \<or>
         (fieldName = ''description'' \<and> (\<exists>s. v = JStr s \<and> upd = (\<lambda>r. r\<lparr>r_description := Some s\<rparr>))) \<or>
         (fieldName = ''description'' \<and> v = JNull \<and> upd = (\<lambda>r. r\<lparr>r_description := None\<rparr>)) \<or>
         (fieldName = ''maxOccupancy'' \<and> (\<exists>n. v = JNum n \<and> upd = (\<lambda>r. r\<lparr>r_maxOccupancy := Some n\<rparr>))) \<or>
         (fieldName = ''maxOccupancy'' \<and> v = JNull \<and> upd = (\<lambda>r. r\<lparr>r_maxOccupancy := None\<rparr>))"
proof (cases v)
  case JNull
  then show ?thesis using assms
    by (auto simp: room_data_def split: if_splits)
next
  case (JBool b)
  then show ?thesis using assms
    by (simp add: room_data_def split: if_splits)
next
  case (JNum n)
  then show ?thesis using assms
    by (auto simp: room_data_def split: if_splits)
next
  case (JStr s)
  then show ?thesis using assms
    by (auto simp: room_data_def split: if_splits)
qed

lemma room_data_written:
  assumes "room_data fieldName v = Some upd"
  shows "room_field fieldName (upd r) = Some v"
  using room_data_cases [OF assms]
  by (elim disjE conjE exE) (simp_all add: room_field_def)

lemma room_data_others_kept:
  assumes "room_data fieldName v = Some upd" and "f \<noteq> fieldName"
  shows "room_field f (upd r) = room_field f r"
  using room_data_cases [OF assms(1)] assms(2)
  by (elim disjE conjE exE) (simp_all add: room_field_def)

lemma resolveConflict_empty_source:
  "resolveConflict now conflictId strategy (Some []) db =
   resolveConflict now conflictId strategy None db"
  by (cases "find (\<lambda>c. mc_id c = conflictId) (mappingConflicts db)")
    (simp_all add: resolveConflict_def resolveConflict_body_def transaction_def)

text \<open>
  C3, as the code has it. Take an existing conflict. For a non-empty \<^verbatim>\<open>sourceToApply\<close>:
  if the conflict has an entry for that source, and is about a room of the datastore
  and a field of it that can hold the recorded value, then \<^verbatim>\<open>resolveConflict\<close> with
  \<^verbatim>\<open>apply_source\<close> succeeds, writes the value of the first such entry into the named
  field of the room, so that the field then reads exactly that value and every other
  field of the room reads as before, leaves the other rooms as they are, and marks
  the conflict resolved with resolution \<^verbatim>\<open>apply_source\<close> and the time of the call; if the
  conflict has no entry for that source, the call fails with the error naming the
  source and the datastore is unchanged. For the empty string as \<^verbatim>\<open>sourceToApply\<close> the
  call does, on every datastore, what it does with no \<^verbatim>\<open>sourceToApply\<close>.
\<close>

theorem C3_apply_source:
  assumes conflict: "find (\<lambda>c. mc_id c = conflictId) (mappingConflicts db) = Some conflict"
  shows "(sourceToApply \<noteq> [] \<longrightarrow>
           (\<forall>entry r upd.
              find (\<lambda>s. ce_source s = sourceToApply) (mc_conflictingSources conflict) = Some entry \<and>
              mc_entityType conflict = ''room'' \<and>
              find (\<lambda>r. r_id r = mc_entityId conflict) (rooms db) = Some r \<and>
              room_data (mc_fieldName conflict) (ce_value entry) = Some upd
            \<longrightarrow> resolveConflict now conflictId Apply_source (Some sourceToApply) db =
                  (Inr (mark_resolved now Apply_source conflict),
                   db\<lparr>rooms :=
                        map (\<lambda>r. if r_id r = mc_entityId conflict then upd r else r) (rooms db),
                      mappingConflicts :=
                        map (\<lambda>c. if mc_id c = conflictId then mark_resolved now Apply_source c else c)
                          (mappingConflicts db)\<rparr>) \<and>
                room_field (mc_fieldName conflict) (upd r) = Some (ce_value entry) \<and>
                (\<forall>f. f \<noteq> mc_fieldName conflict \<longrightarrow> room_field f (upd r) = room_field f r) \<and>
                find (\<lambda>c. mc_id c = conflictId)
                  (mappingConflicts
                     (snd (resolveConflict now conflictId Apply_source (Some sourceToApply) db))) =
                  Some (mark_resolved now Apply_source conflict)) \<and>
           (find (\<lambda>s. ce_source s = sourceToApply) (mc_conflictingSources conflict) = None
            \<longrightarrow> resolveConflict now conflictId Apply_source (Some sourceToApply) db =
                  (Inl (Source_not_found sourceToApply), db))) \<and>
         resolveConflict now conflictId Apply_source (Some []) db =
           resolveConflict now conflictId Apply_source None db"
proof (intro conjI allI impI)
  show "resolveConflict now conflictId Apply_source (Some []) db =
      resolveConflict now conflictId Apply_source None db"
    by (rule resolveConflict_empty_source)
next
  assume src: "sourceToApply \<noteq> []"
    and none: "find (\<lambda>s. ce_source s = sourceToApply) (mc_conflictingSources conflict) = None"
  show "resolveConflict now conflictId Apply_source (Some sourceToApply) db =
                (Inl (Source_not_found sourceToApply), db)"
    using conflict src none
    by (simp add: resolveConflict_def resolveConflict_body_def transaction_def)
next
  fix entry r upd
  assume src: "sourceToApply \<noteq> []"
    and a: "find (\<lambda>s. ce_source s = sourceToApply) (mc_conflictingSources conflict) = Some entry \<and>
            mc_entityType conflict = ''room'' \<and>
            find (\<lambda>r. r_id r = mc_entityId conflict) (rooms db) = Some r \<and>
            room_data (mc_fieldName conflict) (ce_value entry) = Some upd"
  show res: "resolveConflict now conflictId Apply_source (Some sourceToApply) db =
      (Inr (mark_resolved now Apply_source conflict),
       db\<lparr>rooms := map (\<lambda>r. if r_id r = mc_entityId conflict then upd r else r) (rooms db),
          mappingConflicts :=
            map (\<lambda>c. if mc_id c = conflictId then mark_resolved now Apply_source c else c)
              (mappingConflicts db)\<rparr>)"
    using conflict src a
    by (simp add: resolveConflict_def resolveConflict_body_def transaction_def
        room_update_field_def mark_resolved_def)
  show "room_field (mc_fieldName conflict) (upd r) = Some (ce_value entry)"
    using a room_data_written by blast
  show "room_field f (upd r) = room_field f r" if "f \<noteq> mc_fieldName conflict" for f
    using a that room_data_others_kept by blast
  show "find (\<lambda>c. mc_id c = conflictId)
          (mappingConflicts
             (snd (resolveConflict now conflictId Apply_source (Some sourceToApply) db))) =
        Some (mark_resolved now Apply_source conflict)"
    using conflict find_map_id [of mc_id conflictId "mappingConflicts db" conflict
        "mark_resolved now Apply_source"]
    by (simp add: res mark_resolved_def)
qed

theorem C3_apply_source_witness:
  "resolveConflict 5000 ''conf_1'' Apply_source (Some ''provider_b'') conflictStore =
     (Inr (mark_resolved 5000 Apply_source conf_1),
      conflictStore\<lparr>rooms := [r_1\<lparr>r_maxOccupancy := Some 4\<rparr>],
        mappingConflicts := [mark_resolved 5000 Apply_source conf_1]\<rparr>) \<and>
   resolveConflict 5000 ''conf_2'' Apply_source (Some ''provider_b'') nameConflictStore =
     (Inr (mark_resolved 5000 Apply_source conf_name),
      nameConflictStore\<lparr>rooms := [r_1\<lparr>r_name := ''Standard Double''\<rparr>],
        mappingConflicts := [mark_resolved 5000 Apply_source conf_name]\<rparr>) \<and>
   resolveConflict 5000 ''conf_1'' Apply_source (Some ''provider_c'') conflictStore =
     (Inl (Source_not_found ''provider_c''), conflictStore) \<and>
   resolveConflict 5000 ''conf_1'' Apply_source (Some []) conflictStore =
     (Inr (mark_resolved 5000 Apply_source conf_1),
      conflictStore\<lparr>mappingConflicts := [mark_resolved 5000 Apply_source conf_1]\<rparr>)"
proof -
  have c: "find (\<lambda>c. mc_id c = ''conf_1'') (mappingConflicts conflictStore) = Some conf_1"
    by (simp add: conflictStore_def conf_1_def)
  have n: "find (\<lambda>c. mc_id c = ''conf_2'') (mappingConflicts nameConflictStore) = Some conf_name"
    by (simp add: nameConflictStore_def conf_name_def)
  have none: "resolveConflict 5000 ''conf_1'' Apply_source None conflictStore =
     (Inr (mark_resolved 5000 Apply_source conf_1),
      conflictStore\<lparr>mappingConflicts := [mark_resolved 5000 Apply_source conf_1]\<rparr>)"
    by (simp add: resolveConflict_def resolveConflict_body_def transaction_def mark_resolved_def
        conflictStore_def conf_1_def)
  have 1: "resolveConflict 5000 ''conf_1'' Apply_source (Some ''provider_b'') conflictStore =
     (Inr (mark_resolved 5000 Apply_source conf_1),
      conflictStore\<lparr>rooms := [r_1\<lparr>r_maxOccupancy := Some 4\<rparr>],
        mappingConflicts := [mark_resolved 5000 Apply_source conf_1]\<rparr>)"
    using C3_apply_source [OF c, where sourceToApply = "''provider_b''" and now = 5000]
    by (simp add: conf_1_def conflictStore_def mappedStore_def r_1_def room_data_def)
  have 2: "resolveConflict 5000 ''conf_2'' Apply_source (Some ''provider_b'') nameConflictStore =
     (Inr (mark_resolved 5000 Apply_source conf_name),
      nameConflictStore\<lparr>rooms := [r_1\<lparr>r_name := ''Standard Double''\<rparr>],
        mappingConflicts := [mark_resolved 5000 Apply_source conf_name]\<rparr>)"
    using C3_apply_source [OF n, where sourceToApply = "''provider_b''" and now = 5000]
    by (simp add: conf_name_def nameConflictStore_def mappedStore_def r_1_def room_data_def)
  have 3: "resolveConflict 5000 ''conf_1'' Apply_source (Some ''provider_c'') conflictStore =
     (Inl (Source_not_found ''provider_c''), conflictStore)"
    using C3_apply_source [OF c, where sourceToApply = "''provider_c''" and now = 5000]
    by (simp add: conf_1_def)
  have 4: "resolveConflict 5000 ''conf_1'' Apply_source (Some []) conflictStore =
     (Inr (mark_resolved 5000 Apply_source conf_1),
      conflictStore\<lparr>mappingConflicts := [mark_resolved 5000 Apply_source conf_1]\<rparr>)"
    using C3_apply_source [OF c, where sourceToApply = "''provider_b''" and now = 5000] none
    by simp
  from 1 2 3 4 show ?thesis by blast
qed

text \<open>
  C3, as the specification words it, fails for the empty string as \<^verbatim>\<open>sourceToApply\<close>: it
  is falsy, so the lookup is skipped; the call succeeds and resolves the conflict
  though no entry has that source.
\<close>

theorem C3_empty_source_counterexample:
  "find (\<lambda>s. ce_source s = []) (mc_conflictingSources conf_1) = None \<and>
   resolveConflict 5000 ''conf_1'' Apply_source (Some []) conflictStore =
     (Inr (mark_resolved 5000 Apply_source conf_1),
      conflictStore\<lparr>mappingConflicts := [mark_resolved 5000 Apply_source conf_1]\<rparr>)"
  by (simp add: resolveConflict_def resolveConflict_body_def transaction_def mark_resolved_def
      conflictStore_def conf_1_def)

section \<open>The parser on the feeds of the tests\<close>

lemma two_queens_parsed:
  "parse asciiBuiltins env0 (OpenTag ''Room'' no_attributes # two_queens_body @ [CloseTag ''Room'' no_attributes]) =
     [(\<lparr>name = ''Ocean View Suite'', max_occupancy = None,
        beds = Some [\<lparr>bed_type = Queen, bed_count = Num 2\<rparr>], photos = Some [],
        amenities = Some [], attributes = Some \<lparr>attr_class = None, attr_view = None\<rparr>,
        rates = Some []\<rparr>, Some ''OVS_99'', None)]"
  by (simp add: two_queens_body_def no_attributes_def parser_defs string_defs aggregate_bed_def)

lemma mapAmenity_WIFI: "mapAmenity asciiBuiltins ''WIFI'' = Wifi"
  by (simp add: mapAmenity_def AMENITY_MAPPING_def is_upper_alnum_def string_defs)

lemma mapAmenity_POOL: "mapAmenity asciiBuiltins ''POOL'' = Pool"
  by (simp add: mapAmenity_def AMENITY_MAPPING_def is_upper_alnum_def string_defs)

lemma mapAmenity_unknown: "mapAmenity asciiBuiltins ''UNKNOWN_THING'' = Wifi"
  by (simp add: mapAmenity_def AMENITY_MAPPING_def is_upper_alnum_def string_defs)

lemma parseInt_2: "parseInt asciiBuiltins ''2'' = Num 2" "parseInt asciiBuiltins ''1'' = Num 1" "parseInt asciiBuiltins ''abc'' = NaN"
    "parseInt asciiBuiltins '' -12px'' = Num (- 12)"
  by (simp_all add: asciiBuiltins_def ascii_parseInt_def is_space_def is_digit_def digits_value_def)

lemma deluxe_king_parsed:
  "parse asciiBuiltins env0 feed_deluxe_king =
     [(\<lparr>name = ''Deluxe King'', max_occupancy = Some (Num 2),
        beds = Some [\<lparr>bed_type = King, bed_count = Num 1\<rparr>],
        photos = Some [\<lparr>url = ''http://example.com/room.jpg''\<rparr>],
        amenities = Some [\<lparr>amenity_type = Wifi, amenity_description = ''Free High Speed Wi-Fi''\<rparr>],
        attributes = Some \<lparr>attr_class = None, attr_view = None\<rparr>,
        rates = Some []\<rparr>, Some ''DK123'', None)]"
  by (simp add: feed_deluxe_king_def parser_defs mapAmenity_def AMENITY_MAPPING_def
      is_upper_alnum_def ascii_parseInt_def is_digit_def digits_value_def string_defs)

lemma two_hotels_parsed:
  "map (\<lambda>(room, sourceId, hotelId). (name room, sourceId, hotelId)) (parse asciiBuiltins env0 feed_two_hotels) =
     [(''Room 1'', Some ''R1'', Some ''H100''), (''Room 2'', Some ''R2'', Some ''H200'')]"
  by (simp add: feed_two_hotels_def no_attributes_def parser_defs string_defs)

lemma two_rate_plans_parsed:
  "map (\<lambda>(room, sourceId, hotelId).
          map_option (map (\<lambda>r. (rate_id r, total_amount r, total_currency r, base_currency r,
            board_type r))) (rates room))
     (parse asciiBuiltins env0 feed_two_rate_plans) =
   [Some [(''rate_123'', ''150.00'', ''GBP'', ''GBP'', Breakfast),
          (''rate_456'', ''100.00'', ''GBP'', ''GBP'', Room_only)]]"
  by (simp add: feed_two_rate_plans_def no_attributes_def parser_defs string_defs)

section \<open>Properties of the hotel context\<close>

text \<open>
  The \<^verbatim>\<open>closetag\<close> handler does nothing while no room is in progress; it clears the
  hotel id only for a wrapper that closes inside a room in progress.
\<close>

lemma closetag_hotel_inside_room:
  "currentRoom st \<noteq> None \<Longrightarrow> is_hotel_tag n \<Longrightarrow> currentHotelId (closetag js n attrs st) = None"
  by (auto simp: closetag_def Let_def is_hotel_tag_def is_rate_tag_def is_room_tag_def)

lemma closetag_outside_room:
  "currentRoom st = None \<Longrightarrow> closetag js n attrs st = st"
  by (simp add: closetag_def)

text \<open>
  C6, at a failing input. In the feed
  \<^verbatim>\<open><Hotels><Hotel HotelCode="H100"></Hotel><Room id="R1" name="Room 1"></Room></Hotels>\<close>
  the wrapper closes while no room is in progress, so the \<^verbatim>\<open>closetag\<close> handler returns
  before it reaches the statement that clears the hotel id; the room that closes
  afterwards, with no new wrapper opened, is delivered with the hotel id \<^verbatim>\<open>H100\<close>.
\<close>

theorem C6_stale_hotel_id:
  "parse js env0 feed_room_after_hotel =
     [(\<lparr>name = ''Room 1'', max_occupancy = None, beds = Some [], photos = Some [],
        amenities = Some [], attributes = Some \<lparr>attr_class = None, attr_view = None\<rparr>,
        rates = Some []\<rparr>, Some ''R1'', Some ''H100'')]"
  by (simp add: feed_room_after_hotel_def no_attributes_def parser_defs)

section \<open>Properties of the rates\<close>

lemma rates_opentag_in_room:
  "rates (the (currentRoom (opentag_in_room js env n attrs room st))) = rates room"
  by (simp add: opentag_in_room_def Let_def)

lemma currentRate_opentag_in_room:
  "\<not> is_rate_tag n \<Longrightarrow> currentRate (opentag_in_room js env n attrs room st) = currentRate st"
  by (simp add: opentag_in_room_def Let_def)

lemma currentRoom_opentag_in_room:
  "currentRoom (opentag_in_room js env n attrs room st) \<noteq> None"
  by (simp add: opentag_in_room_def Let_def)

lemma rates_closetag_room_fields:
  "rates (closetag_room_fields js n content room) = rates room"
  by (simp add: closetag_room_fields_def split: option.splits)

lemma monetary_closetag_rate_fields:
  "n \<noteq> ''Amount'' \<Longrightarrow> n \<noteq> ''Total'' \<Longrightarrow>
   monetary_fields (closetag_rate_fields js n attrs content rate) = monetary_fields rate"
  by (simp add: closetag_rate_fields_def monetary_fields_def Let_def)

lemma rate_in_progress_handle:
  assumes "rate_in_progress rs st" and "keeps_rate e"
  shows "rate_in_progress rs (handle js env e st)"
proof -
  obtain room rate where st: "currentRoom st = Some room" "currentRate st = Some rate"
    and rs: "rates room = Some rs"
    and m: "monetary_fields rate =
      ((''0.00'', ''USD''), (None, ''USD''), (None, ''USD''), (None, ''USD''), (None, ''USD''))"
    using assms(1) by (auto simp: rate_in_progress_def split: option.splits)
  show ?thesis
  proof (cases e)
    case (OpenTag n attrs)
    then have n: "\<not> is_room_tag n" "\<not> is_rate_tag n" using assms(2) by simp_all
    let ?st1 = "(if is_hotel_tag n
             then st\<lparr>currentTag := Some n, textBuffer := [],
                    currentHotelId :=
                    js_or (js_or (js_or (attrs ''HotelCode'') (attrs ''HotelID'')) (attrs ''id''))
                      (attrs ''Code'')\<rparr>
             else st\<lparr>currentTag := Some n, textBuffer := []\<rparr>)"
    have eq: "handle js env e st = opentag_in_room js env n attrs room ?st1"
      using OpenTag n st by (simp add: opentag_def Let_def)
    have "currentRate (opentag_in_room js env n attrs room ?st1) = Some rate"
      using currentRate_opentag_in_room [OF n(2), where js = js and env = env and attrs = attrs and room = room and st = "?st1"] st by simp
    moreover obtain room' where "currentRoom (opentag_in_room js env n attrs room ?st1) = Some room'"
      using currentRoom_opentag_in_room [where js = js and env = env and n = n and attrs = attrs and room = room and st = "?st1"] by auto
    moreover from this have "rates room' = Some rs"
      using rates_opentag_in_room [where js = js and env = env and n = n and attrs = attrs and room = room and st = "?st1"] rs by simp
    ultimately show ?thesis
      using m by (simp add: eq rate_in_progress_def)
  next
    case (Text t)
    then show ?thesis
      using assms(1) st by (simp add: text_event_def rate_in_progress_def)
  next
    case (CloseTag n attrs)
    then have n: "\<not> is_room_tag n" "\<not> is_rate_tag n" "n \<noteq> ''Amount''" "n \<noteq> ''Total''"
      using assms(2) by simp_all
    show ?thesis
      using CloseTag n st rs m
      by (simp add: closetag_def Let_def rate_in_progress_def rates_closetag_room_fields
          monetary_closetag_rate_fields)
  qed
qed

lemma rate_in_progress_run:
  assumes "rate_in_progress rs st" and "list_all keeps_rate body"
  shows "rate_in_progress rs (run js env i body st)"
  using assms
proof (induction body arbitrary: st i)
  case Nil
  then show ?case by simp
next
  case (Cons e es)
  then show ?case by (simp add: rate_in_progress_handle)
qed

lemma run_append: "run js env i (xs @ ys) st = run js env (i + length xs) ys (run js env i xs st)"
  by (induction xs arbitrary: i st) simp_all

lemma rate_opened:
  assumes "currentRoom st = Some room" and "rates room = Some rs" and "is_rate_tag n"
  shows "rate_in_progress rs (opentag js env n attrs st)"
  using assms
  by (auto simp: opentag_def opentag_in_room_def Let_def rate_in_progress_def newRate_def
      monetary_fields_def is_rate_tag_def is_hotel_tag_def is_room_tag_def)

lemma rate_closed:
  assumes "rate_in_progress rs st" and "is_rate_tag n"
  shows "\<exists>room rate. currentRoom (closetag js n attrs st) = Some room \<and>
           rates room = Some (rs @ [rate]) \<and> currentRate (closetag js n attrs st) = None \<and>
           monetary_fields rate =
             ((''0.00'', ''USD''), (None, ''USD''), (None, ''USD''), (None, ''USD''), (None, ''USD''))"
  using assms
  by (auto simp: closetag_def Let_def rate_in_progress_def push_def split: option.splits)

text \<open>
  C5, as the code has it. While a room is in progress, a Rate/RatePlan element whose
  content has no closing Amount or Total tag, and no rate or room tag, appends one
  rate to the room's rate list; its total has amount \<^verbatim>\<open>0.00\<close> and currency \<^verbatim>\<open>USD\<close>, and
  each of base, tax, fee and due-at-accommodation has no amount and currency \<^verbatim>\<open>USD\<close>.
\<close>

theorem C5_rate_defaults:
  assumes "currentRoom st = Some room" and "rates room = Some rs"
    and "is_rate_tag n" and "is_rate_tag n'" and "list_all keeps_rate body"
  shows "\<exists>room' rate.
           currentRoom (run js env i (OpenTag n attrs # body @ [CloseTag n' attrs']) st) = Some room' \<and>
           rates room' = Some (rs @ [rate]) \<and>
           (total_amount rate, total_currency rate) = (''0.00'', ''USD'') \<and>
           (base_amount rate, base_currency rate) = (None, ''USD'') \<and>
           (tax_amount rate, tax_currency rate) = (None, ''USD'') \<and>
           (fee_amount rate, fee_currency rate) = (None, ''USD'') \<and>
           (due_at_accommodation_amount rate, due_at_accommodation_currency rate) = (None, ''USD'')"
proof -
  have "rate_in_progress rs (run js env (Suc i) body (opentag js (env i) n attrs st))"
    using rate_in_progress_run [OF rate_opened [OF assms(1,2,3)] assms(5)] .
  from rate_closed [OF this assms(4), where attrs = attrs' and js = js] show ?thesis
    by (simp add: run_append monetary_fields_def) blast
qed

theorem C5_rate_defaults_witness:
  "\<exists>room' rate.
     currentRoom
       (run asciiBuiltins env0 1
          (OpenTag ''RatePlan'' [''code'' \<mapsto> ''BAR'', ''id'' \<mapsto> ''rate_123''] #
           rate_plan_body @
           [CloseTag ''RatePlan'' [''code'' \<mapsto> ''BAR'', ''id'' \<mapsto> ''rate_123'']])
          (opentag asciiBuiltins (env0 0) ''GuestRoom'' [''name'' \<mapsto> ''Standard''] initialState)) = Some room' \<and>
     rates room' = Some ([] @ [rate]) \<and>
     (total_amount rate, total_currency rate) = (''0.00'', ''USD'') \<and>
     (base_amount rate, base_currency rate) = (None, ''USD'') \<and>
     (tax_amount rate, tax_currency rate) = (None, ''USD'') \<and>
     (fee_amount rate, fee_currency rate) = (None, ''USD'') \<and>
     (due_at_accommodation_amount rate, due_at_accommodation_currency rate) = (None, ''USD'')"
proof -
  have 1: "currentRoom (opentag asciiBuiltins (env0 0) ''GuestRoom'' [''name'' \<mapsto> ''Standard''] initialState) =
      Some (room_of_tag asciiBuiltins [''name'' \<mapsto> ''Standard''])"
    by (simp add: parser_defs)
  have 2: "rates (room_of_tag asciiBuiltins [''name'' \<mapsto> ''Standard'']) = Some []"
    by (simp add: room_of_tag_def Let_def)
  have 3: "is_rate_tag ''RatePlan''"
    by (simp add: is_rate_tag_def)
  have 4: "list_all keeps_rate rate_plan_body"
    by (simp add: rate_plan_body_def is_room_tag_def is_rate_tag_def)
  show ?thesis
    by (rule C5_rate_defaults [OF 1 2 3 3 4])
qed

text \<open>
  The claim as stated fails: of the five amounts only the total defaults to \<^verbatim>\<open>0.00\<close>;
  the rate parsed from a rate plan without amounts has no base, tax, fee or
  due-at-accommodation amount.
\<close>

theorem C5_base_amount_counterexample:
  "map (\<lambda>(room, sourceId, hotelId). map_option (map monetary_fields) (rates room))
     (parse asciiBuiltins env0 feed_rate_plan) =
   [Some [((''0.00'', ''USD''), (None, ''USD''), (None, ''USD''), (None, ''USD''), (None, ''USD''))]]"
  by (simp add: feed_rate_plan_def rate_plan_body_def no_attributes_def parser_defs
      monetary_fields_def string_defs)

section \<open>Properties of the bed aggregation\<close>

lemma increment_first_filter:
  "filter (\<lambda>b. bed_type b = t) (increment_first t bs) =
     (case filter (\<lambda>b. bed_type b = t) bs of
        [] \<Rightarrow> []
      | b # r \<Rightarrow> b\<lparr>bed_count := increment (bed_count b)\<rparr> # r)"
  by (induction bs) auto

lemma find_None_filter_iff: "(find P xs = None) = (filter P xs = [])"
  by (induction xs) auto

lemma aggregate_bed_filter:
  assumes "filter (\<lambda>b. bed_type b = t) bs =
      (if k = 0 then [] else [\<lparr>bed_type = t, bed_count = Num (int k)\<rparr>])"
  shows "filter (\<lambda>b. bed_type b = t) (aggregate_bed t bs) =
      [\<lparr>bed_type = t, bed_count = Num (int (Suc k))\<rparr>]"
proof (cases "k = 0")
  case True
  then have "find (\<lambda>b. bed_type b = t) bs = None"
    using assms by (simp add: find_None_filter_iff)
  then show ?thesis
    using assms True by (simp add: aggregate_bed_def)
next
  case False
  then have f: "filter (\<lambda>b. bed_type b = t) bs = [\<lparr>bed_type = t, bed_count = Num (int k)\<rparr>]"
    using assms by simp
  then have "find (\<lambda>b. bed_type b = t) bs \<noteq> None"
    by (simp add: find_None_filter_iff)
  then show ?thesis
    using f by (auto simp: aggregate_bed_def increment_first_filter algebra_simps)
qed

lemma counted_opentag_in_room:
  assumes "beds room \<noteq> None"
    and "n = ''Bed'' \<longrightarrow> normalizeBedType js (str_or (attrs ''type'') []) \<noteq> t"
  shows "\<exists>room'. currentRoom (opentag_in_room js env n attrs room st) = Some room' \<and>
           beds room' \<noteq> None \<and> beds_of_type t room' = beds_of_type t room"
  using assms
  by (auto simp: opentag_in_room_def Let_def beds_of_type_def push_def)

lemma textBuffer_opentag_in_room:
  "textBuffer (opentag_in_room js env n attrs room st) = textBuffer st"
  by (simp add: opentag_in_room_def Let_def)

lemma counted_opentag:
  assumes "counted t k st" and "\<not> is_room_tag n"
    and "n = ''Bed'' \<longrightarrow> normalizeBedType js (str_or (attrs ''type'') []) \<noteq> t"
  shows "counted t k (opentag js env n attrs st) \<and> textBuffer (opentag js env n attrs st) = []"
proof -
  obtain room where room: "currentRoom st = Some room" "beds room \<noteq> None"
      "beds_of_type t room = (if k = 0 then [] else [\<lparr>bed_type = t, bed_count = Num (int k)\<rparr>])"
    using assms(1) by (auto simp: counted_def split: option.splits)
  let ?st1 = "(if is_hotel_tag n
             then st\<lparr>currentTag := Some n, textBuffer := [],
                    currentHotelId :=
                    js_or (js_or (js_or (attrs ''HotelCode'') (attrs ''HotelID'')) (attrs ''id''))
                      (attrs ''Code'')\<rparr>
             else st\<lparr>currentTag := Some n, textBuffer := []\<rparr>)"
  have eq: "opentag js env n attrs st = opentag_in_room js env n attrs room ?st1"
    using assms(2) room(1) by (simp add: opentag_def Let_def)
  obtain room' where "currentRoom (opentag_in_room js env n attrs room ?st1) = Some room'"
      "beds room' \<noteq> None" "beds_of_type t room' = beds_of_type t room"
    using counted_opentag_in_room [where room = room and n = n and attrs = attrs and t = t and env = env and st = "?st1" and js = js] room(2) assms(3) by blast
  then show ?thesis
    using room(3) by (simp add: eq counted_def textBuffer_opentag_in_room)
qed

lemma beds_closetag_room_fields:
  "beds (closetag_room_fields js n content room) =
     (if n = ''BedType'' then map_option (aggregate_bed (normalizeBedType js content)) (beds room)
      else beds room)"
  by (simp add: closetag_room_fields_def split: option.splits)

lemma counted_closetag:
  assumes "counted t k st" and "\<not> is_room_tag n"
    and "n = ''BedType'' \<longrightarrow> normalizeBedType js (trim js (textBuffer st)) = t"
  shows "counted t (if n = ''BedType'' then Suc k else k) (closetag js n attrs st) \<and>
         textBuffer (closetag js n attrs st) = textBuffer st"
proof -
  obtain room bs where room: "currentRoom st = Some room" "beds room = Some bs"
      "filter (\<lambda>b. bed_type b = t) bs =
         (if k = 0 then [] else [\<lparr>bed_type = t, bed_count = Num (int k)\<rparr>])"
    using assms(1) by (auto simp: counted_def beds_of_type_def split: option.splits)
  show ?thesis
  proof (cases "currentRate st \<noteq> None \<and> is_rate_tag n")
    case True
    then obtain rate where rate: "currentRate st = Some rate" and n: "is_rate_tag n" by auto
    from n have "n \<noteq> ''BedType''" by (auto simp: is_rate_tag_def)
    then show ?thesis
      using rate n room by (simp add: closetag_def Let_def counted_def beds_of_type_def)
  next
    case False
    show ?thesis
      using False room assms(2,3) aggregate_bed_filter [OF room(3)]
      by (auto simp: closetag_def Let_def counted_def beds_of_type_def beds_closetag_room_fields)
  qed
qed

lemma counted_text:
  assumes "counted t k st"
  shows "counted t k (text_event x st) \<and> textBuffer (text_event x st) = textBuffer st @ x"
  using assms by (auto simp: counted_def text_event_def split: option.splits)

lemma counted_run:
  assumes "counted t k st" and "bedtype_only js t (textBuffer st) body"
  shows "counted t (k + length (filter is_BedType_close body)) (run js env i body st)"
  using assms
proof (induction body arbitrary: st k i)
  case Nil
  then show ?case by simp
next
  case (Cons e es)
  show ?case
  proof (cases e)
    case (OpenTag n attrs)
    then have c: "counted t k (opentag js (env i) n attrs st)"
        "textBuffer (opentag js (env i) n attrs st) = []"
      using Cons.prems counted_opentag [where t = t and k = k and st = st and n = n and attrs = attrs and env = "env i" and js = js] by simp_all
    have "bedtype_only js t [] es" using Cons.prems OpenTag by simp
    then show ?thesis
      using Cons.IH [of k "opentag js (env i) n attrs st" "Suc i"] c OpenTag by simp
  next
    case (Text x)
    then have c: "counted t k (text_event x st)" "textBuffer (text_event x st) = textBuffer st @ x"
      using Cons.prems counted_text [of t k st x] by simp_all
    have "bedtype_only js t (textBuffer st @ x) es" using Cons.prems Text by simp
    then show ?thesis
      using Cons.IH [of k "text_event x st" "Suc i"] c Text by simp
  next
    case (CloseTag n attrs)
    then have c: "counted t (if n = ''BedType'' then Suc k else k) (closetag js n attrs st)"
        "textBuffer (closetag js n attrs st) = textBuffer st"
      using Cons.prems counted_closetag [where t = t and k = k and st = st and n = n and attrs = attrs and js = js] by simp_all
    have "bedtype_only js t (textBuffer st) es" using Cons.prems CloseTag by simp
    then show ?thesis
      using Cons.IH [of "if n = ''BedType'' then Suc k else k" "closetag js n attrs st" "Suc i"]
        c CloseTag
      by (cases "n = ''BedType''") simp_all
  qed
qed

lemma room_tag_not_others:
  assumes "is_room_tag n"
  shows "\<not> is_hotel_tag n" "\<not> is_rate_tag n" "n \<noteq> ''Bed''" "n \<noteq> ''TypeRoom''"
    "n \<noteq> ''Photo''" "n \<noteq> ''Image''" "n \<noteq> ''Amenity''"
  using assms by (auto simp: is_room_tag_def is_hotel_tag_def is_rate_tag_def)

lemma room_opened:
  assumes "is_room_tag n"
  shows "counted t 0 (opentag js env n attrs st) \<and> textBuffer (opentag js env n attrs st) = []"
  using assms room_tag_not_others [OF assms]
  by (simp add: opentag_def opentag_in_room_def Let_def counted_def beds_of_type_def
      room_of_tag_def)

lemma roomsFound_opentag_in_room:
  "roomsFound (opentag_in_room js env n attrs room st) = roomsFound st"
  by (simp add: opentag_in_room_def Let_def)

lemma roomsFound_opentag [simp]: "roomsFound (opentag js env n attrs st) = roomsFound st"
  by (cases "is_hotel_tag n"; cases "is_room_tag n")
    (simp_all add: opentag_def Let_def roomsFound_opentag_in_room split: option.splits)

lemma roomsFound_text [simp]: "roomsFound (text_event x st) = roomsFound st"
  by (simp add: text_event_def split: option.splits)

lemma roomsFound_closetag:
  "\<not> is_room_tag n \<Longrightarrow> roomsFound (closetag js n attrs st) = roomsFound st"
  by (simp add: closetag_def Let_def split: option.splits)

lemma roomsFound_run:
  "bedtype_only js t buf body \<Longrightarrow> roomsFound (run js env i body st) = roomsFound st"
proof (induction body arbitrary: st i buf)
  case Nil
  then show ?case by simp
next
  case (Cons e es)
  show ?case
  proof (cases e)
    case (OpenTag n attrs)
    then show ?thesis using Cons.prems Cons.IH [of "[]"] by simp
  next
    case (Text x)
    then show ?thesis using Cons.prems Cons.IH [of "buf @ x"] by simp
  next
    case (CloseTag n attrs)
    then show ?thesis using Cons.prems Cons.IH [of buf] by (simp add: roomsFound_closetag)
  qed
qed

lemma room_tag_no_field:
  assumes "is_room_tag n"
  shows "closetag_room_fields js n content room = room"
proof -
  from assms have "n = ''Room'' \<or> n = ''GuestRoom''"
    by (simp add: is_room_tag_def)
  then show ?thesis
    by (elim disjE) (simp_all add: closetag_room_fields_def)
qed

lemma room_closed:
  assumes "counted t k st" and "is_room_tag n"
  shows "\<exists>room bs. currentRoom st = Some room \<and> beds room = Some bs \<and>
           filter (\<lambda>b. bed_type b = t) bs =
             (if k = 0 then [] else [\<lparr>bed_type = t, bed_count = Num (int k)\<rparr>]) \<and>
           roomsFound (closetag js n attrs st) =
             (if name room \<noteq> [] then roomsFound st @ [(room, currentSourceId st, currentHotelId st)]
              else roomsFound st)"
proof -
  obtain room bs where room: "currentRoom st = Some room" "beds room = Some bs"
      "filter (\<lambda>b. bed_type b = t) bs =
         (if k = 0 then [] else [\<lparr>bed_type = t, bed_count = Num (int k)\<rparr>])"
    using assms(1) by (auto simp: counted_def beds_of_type_def split: option.splits)
  have "roomsFound (closetag js n attrs st) =
      (if name room \<noteq> [] then roomsFound st @ [(room, currentSourceId st, currentHotelId st)]
       else roomsFound st)"
    using room(1) assms(2) room_tag_not_others [OF assms(2)]
    by (simp add: closetag_def Let_def room_tag_no_field)
  then show ?thesis using room by blast
qed

lemma two_queens_before_close:
  "run asciiBuiltins env0 0 (OpenTag ''Room'' no_attributes # two_queens_body) initialState =
     \<lparr>currentHotelId = None,
      currentRoom =
        Some \<lparr>name = ''Ocean View Suite'', max_occupancy = None,
              beds = Some [\<lparr>bed_type = Queen, bed_count = Num 2\<rparr>], photos = Some [],
              amenities = Some [], attributes = Some \<lparr>attr_class = None, attr_view = None\<rparr>,
              rates = Some []\<rparr>,
      currentRate = None, currentSourceId = Some ''OVS_99'', currentTag = None,
      textBuffer = ''Queen'', roomsFound = []\<rparr>"
  by (simp add: two_queens_body_def no_attributes_def parser_defs string_defs aggregate_bed_def)

text \<open>
  C7. Take a room element, from its opening room tag to its closing room tag, with no
  room tag nested, whose content has \<open>n \<ge> 1\<close> BedType tags, every one with text that
  normalizes to the bed type \<open>t\<close>, and no Bed tag whose type normalizes to \<open>t\<close>. From
  any parser state, and whatever the four string built-ins are, the parser holds a room
  in progress when the closing room tag arrives; the bed list of that room has exactly
  one entry for \<open>t\<close>, with count \<open>n\<close>; and the closing room tag delivers that very room,
  with the source id and the hotel id the parser then holds, as the one new call of
  \<^verbatim>\<open>onRoomFound\<close> when the name of the room is non-empty, and makes no call otherwise.
\<close>

theorem C7_BedType_aggregation:
  assumes "is_room_tag n" and "is_room_tag n'"
    and "bedtype_only js t [] body"
    and "0 < length (filter is_BedType_close body)"
  shows "\<exists>room bs.
           currentRoom (run js env i (OpenTag n attrs # body) st) = Some room \<and>
           beds room = Some bs \<and>
           filter (\<lambda>b. bed_type b = t) bs =
             [\<lparr>bed_type = t, bed_count = Num (int (length (filter is_BedType_close body)))\<rparr>] \<and>
           roomsFound (run js env i (OpenTag n attrs # body @ [CloseTag n' attrs']) st) =
             (if name room \<noteq> []
              then roomsFound st @
                [(room, currentSourceId (run js env i (OpenTag n attrs # body) st),
                  currentHotelId (run js env i (OpenTag n attrs # body) st))]
              else roomsFound st)"
proof -
  let ?st1 = "opentag js (env i) n attrs st"
  let ?st2 = "run js env (Suc i) body ?st1"
  have o: "counted t 0 ?st1" "textBuffer ?st1 = []"
    using room_opened [OF assms(1)] by simp_all
  have c: "counted t (length (filter is_BedType_close body)) ?st2"
    using counted_run [where t = t and k = 0 and st = "?st1" and body = body and env = env and i = "Suc i" and js = js] o assms(3) by simp
  have r: "roomsFound ?st2 = roomsFound st"
    using roomsFound_run [OF assms(3)] by simp
  obtain room bs where room: "currentRoom ?st2 = Some room" "beds room = Some bs"
      "filter (\<lambda>b. bed_type b = t) bs =
         [\<lparr>bed_type = t, bed_count = Num (int (length (filter is_BedType_close body)))\<rparr>]"
      "roomsFound (closetag js n' attrs' ?st2) =
         (if name room \<noteq> [] then roomsFound ?st2 @ [(room, currentSourceId ?st2, currentHotelId ?st2)]
          else roomsFound ?st2)"
    using room_closed [OF c assms(2), where attrs = attrs' and js = js] assms(4) by auto
  have s: "run js env i (OpenTag n attrs # body) st = ?st2"
    by simp
  have "run js env i (OpenTag n attrs # body @ [CloseTag n' attrs']) st = closetag js n' attrs' ?st2"
    by (simp add: run_append)
  then show ?thesis
    unfolding s using room r by (intro exI [of _ room] exI [of _ bs]) simp
qed

theorem C7_BedType_aggregation_witness:
  "roomsFound
     (run asciiBuiltins env0 0
        (OpenTag ''Room'' no_attributes # two_queens_body @ [CloseTag ''Room'' no_attributes])
        initialState) =
     [(\<lparr>name = ''Ocean View Suite'', max_occupancy = None,
        beds = Some [\<lparr>bed_type = Queen, bed_count = Num 2\<rparr>], photos = Some [],
        amenities = Some [], attributes = Some \<lparr>attr_class = None, attr_view = None\<rparr>,
        rates = Some []\<rparr>, Some ''OVS_99'', None)] \<and>
   filter (\<lambda>b. bed_type b = Queen) [\<lparr>bed_type = Queen, bed_count = Num 2\<rparr>] =
     [\<lparr>bed_type = Queen, bed_count = Num (int (length (filter is_BedType_close two_queens_body)))\<rparr>]"
proof -
  have 1: "is_room_tag ''Room''"
    by (simp add: is_room_tag_def)
  have 2: "bedtype_only asciiBuiltins Queen [] two_queens_body"
    by (simp add: two_queens_body_def is_room_tag_def string_defs)
  have 3: "0 < length (filter is_BedType_close two_queens_body)"
    by (simp add: two_queens_body_def)
  obtain room bs where r:
      "currentRoom
         (run asciiBuiltins env0 0 (OpenTag ''Room'' no_attributes # two_queens_body) initialState) =
       Some room"
      "roomsFound
         (run asciiBuiltins env0 0
            (OpenTag ''Room'' no_attributes # two_queens_body @ [CloseTag ''Room'' no_attributes])
            initialState) =
       (if name room \<noteq> []
        then roomsFound initialState @
          [(room,
            currentSourceId
              (run asciiBuiltins env0 0 (OpenTag ''Room'' no_attributes # two_queens_body) initialState),
            currentHotelId
              (run asciiBuiltins env0 0 (OpenTag ''Room'' no_attributes # two_queens_body) initialState))]
        else roomsFound initialState)"
    using C7_BedType_aggregation [OF 1 1 2 3, where env = env0 and i = 0
        and attrs = no_attributes and attrs' = no_attributes and st = initialState]
    by blast
  have "room =
      \<lparr>name = ''Ocean View Suite'', max_occupancy = None,
       beds = Some [\<lparr>bed_type = Queen, bed_count = Num 2\<rparr>], photos = Some [],
       amenities = Some [], attributes = Some \<lparr>attr_class = None, attr_view = None\<rparr>,
       rates = Some []\<rparr>"
    using r(1) unfolding two_queens_before_close by simp
  then have "roomsFound
      (run asciiBuiltins env0 0
         (OpenTag ''Room'' no_attributes # two_queens_body @ [CloseTag ''Room'' no_attributes])
         initialState) =
      [(\<lparr>name = ''Ocean View Suite'', max_occupancy = None,
         beds = Some [\<lparr>bed_type = Queen, bed_count = Num 2\<rparr>], photos = Some [],
         amenities = Some [], attributes = Some \<lparr>attr_class = None, attr_view = None\<rparr>,
         rates = Some []\<rparr>, Some ''OVS_99'', None)]"
    using r(2) unfolding two_queens_before_close by (simp add: initialState_def)
  then show ?thesis
    by (simp add: two_queens_body_def)
qed

end
